theory Spec2Isabelle
  imports Complex_Main "HOL-Library.Option_ord"
begin

section \<open>Numbers, errors\<close>

text \<open>
  A JavaScript \<open>number\<close> is modelled as a real: the arithmetic below is the source's
  arithmetic without rounding, overflow or NaN. The two infinities appear in the source
  only as the start of a left tail and the end of a right tail; they are the two extra
  points of \<open>ext\<close>.

  A thrown \<open>Error(message)\<close> is \<open>Error message\<close>. \<open>TypeError\<close> is what
  \<open>buckets[bIdx].push(c)\<close> throws when \<open>buckets[bIdx]\<close> is undefined.
\<close>

datatype exn = Error string | TypeError

datatype ext = NegInf | Fin real | PosInf

fun ext_le :: "ext \<Rightarrow> ext \<Rightarrow> bool" where
  "ext_le NegInf _ = True"
| "ext_le (Fin r) NegInf = False"
| "ext_le (Fin r) (Fin s) = (r \<le> s)"
| "ext_le (Fin r) PosInf = True"
| "ext_le PosInf PosInf = True"
| "ext_le PosInf _ = False"

definition MAX_VALUE :: real where
  "MAX_VALUE = (2 - 1 / 2 ^ 52) * 2 ^ 1023"

section \<open>core/types.ts\<close>

datatype Shape = Uniform | Linear | Custom

datatype Side = Left | Right

datatype Family = Exp | Geom | Pareto | Lognormal

text \<open>
  \<open>Atom x p\<close>, \<open>Bin a b p repr shape\<close> and
  \<open>Tail side x0 mass family params cap\<close>, the fields in the order of the interfaces.
  \<open>params\<close> is a \<open>Record<string, number>\<close>, here an association list.
\<close>

datatype DistComponent =
    Atom real real
  | Bin real real real real Shape
  | Tail Side real real Family "(string \<times> real) list" "real option"

fun isTail :: "DistComponent \<Rightarrow> bool" where
  "isTail (Tail _ _ _ _ _ _) = True"
| "isTail _ = False"

text \<open>\<open>c.type === "tail" ? c.mass : c.p\<close>\<close>

fun massOf :: "DistComponent \<Rightarrow> real" where
  "massOf (Atom x p) = p"
| "massOf (Bin a b p r s) = p"
| "massOf (Tail sd x0 m f ps cp) = m"

text \<open>\<open>c.params.lambda || 1\<close>: a missing or zero \<open>lambda\<close> reads as 1.\<close>

definition lambdaOf :: "(string \<times> real) list \<Rightarrow> real" where
  "lambdaOf ps = (case map_of ps ''lambda'' of
      None \<Rightarrow> 1
    | Some l \<Rightarrow> (if l = 0 then 1 else l))"

section \<open>core/ops.ts\<close>

fun shiftBin :: "DistComponent \<Rightarrow> real \<Rightarrow> real \<Rightarrow> DistComponent list" where
  "shiftBin (Bin a b p0 r s) x p = [Bin (a + x) (b + x) p (r + x) s]"
| "shiftBin _ x p = []"

fun convolveFn :: "DistComponent \<Rightarrow> DistComponent \<Rightarrow> DistComponent list" where
  "convolveFn (Tail sd x0 m f ps cp) c2 = []"
| "convolveFn c1 (Tail sd x0 m f ps cp) = []"
| "convolveFn (Atom x1 p1) (Atom x2 p2) = [Atom (x1 + x2) (p1 * p2)]"
| "convolveFn (Atom x1 p1) (Bin a2 b2 p2 r2 s2) = shiftBin (Bin a2 b2 p2 r2 s2) x1 (p1 * p2)"
| "convolveFn (Bin a1 b1 p1 r1 s1) (Atom x2 p2) = shiftBin (Bin a1 b1 p1 r1 s1) x2 (p1 * p2)"
| "convolveFn (Bin a1 b1 p1 r1 s1) (Bin a2 b2 p2 r2 s2) =
     (let w1 = b1 - a1;
          w2 = b2 - a2;
          v1 = (w1 * w1) / 12;
          v2 = (w2 * w2) / 12;
          newVar = v1 + v2;
          newWidth = sqrt (12 * newVar);
          center1 = (a1 + b1) / 2;
          center2 = (a2 + b2) / 2;
          newMean = center1 + center2
      in [Bin (newMean - newWidth / 2) (newMean + newWidth / 2) (p1 * p2) newMean Uniform])"

section \<open>core/dist.ts\<close>

text \<open>
  A \<open>Dist\<close> object holds one array, \<open>components\<close>; its value is that list. The
  accelerated callbacks (\<open>wasmConvolve\<close>, \<open>wasmMean\<close>, ...) are \<open>null\<close> until a worker
  installs them, and the functions below are the source's own fallback paths.

  The sort key of a left tail is \<open>-Infinity\<close>, here \<open>None\<close> (the least element
  of the order on \<open>real option\<close>). \<open>Array.prototype.sort\<close> is stable, and a
  comparator result of NaN (two left tails) counts as equal, as \<open>sort_key\<close> has it.
\<close>

type_synonym Dist = "DistComponent list"

fun getKey :: "DistComponent \<Rightarrow> real option" where
  "getKey (Atom x p) = Some x"
| "getKey (Bin a b p r s) = Some a"
| "getKey (Tail Left x0 m f ps cp) = None"
| "getKey (Tail Right x0 m f ps cp) = Some x0"

text \<open>\<open>new Dist(components)\<close>: copy and sort.\<close>

definition newDist :: "DistComponent list \<Rightarrow> Dist" where
  "newDist components = sort_key getKey components"

fun scaleMass :: "real \<Rightarrow> DistComponent \<Rightarrow> DistComponent" where
  "scaleMass factor (Atom x p) = Atom x (p * factor)"
| "scaleMass factor (Bin a b p r s) = Bin a b (p * factor) r s"
| "scaleMass factor (Tail sd x0 m f ps cp) = Tail sd x0 (m * factor) f ps cp"

definition totalMass :: "Dist \<Rightarrow> real" where
  "totalMass d = sum_list (map massOf d)"

text \<open>\<open>normalize()\<close> rewrites the masses of the object in place; this is its new value.\<close>

definition normalize :: "Dist \<Rightarrow> Dist" where
  "normalize d =
     (if totalMass d = 0 \<or> \<bar>totalMass d - 1\<bar> < 1 / 10 ^ 9 then d
      else map (scaleMass (1 / totalMass d)) d)"

definition Dist_add :: "Dist \<Rightarrow> Dist \<Rightarrow> Dist" where
  "Dist_add this other =
     newDist (concat (map (\<lambda>c1. concat (map (\<lambda>c2. convolveFn c1 c2) other)) this))"

fun scaleComponent :: "real \<Rightarrow> DistComponent \<Rightarrow> DistComponent" where
  "scaleComponent k (Atom x p) = Atom (x * k) p"
| "scaleComponent k (Bin a b p r s) = Bin (min (a * k) (b * k)) (max (a * k) (b * k)) p (r * k) s"
| "scaleComponent k (Tail sd x0 m f ps cp) = Tail sd x0 m f ps cp"

definition Dist_scale :: "Dist \<Rightarrow> real \<Rightarrow> Dist" where
  "Dist_scale this k = newDist (map (scaleComponent k) this)"

definition Dist_sub :: "Dist \<Rightarrow> Dist \<Rightarrow> Dist" where
  "Dist_sub this other = Dist_add this (Dist_scale other (- 1))"

text \<open>
  \<open>reciprocal()\<close>. An atom at 0 and a tail whose conditional mean is 0 are skipped. In
  the branch \<open>c.a <= 0 && c.b >= 0\<close> one of the three inner cases always applies. A
  bin with \<open>a = 0 = b\<close> takes the case \<open>c.a === 0\<close>, where \<open>1 / mid\<close> is
  \<open>1 / 0\<close>: Infinity in the source, 0 in HOL.
\<close>

fun reciprocalComponent :: "DistComponent \<Rightarrow> DistComponent list" where
  "reciprocalComponent (Atom x p) = (if x = 0 then [] else [Atom (1 / x) p])"
| "reciprocalComponent (Bin a b p r s) =
     (if a \<le> 0 \<and> b \<ge> 0 then
        (if a < 0 \<and> b > 0 then
           (let w = b - a;
                pNeg = p * (- a / w);
                pPos = p * (b / w);
                midNeg = (a + min 0 (a / 2)) / 2;
                midPos = (max 0 (b / 2) + b) / 2
            in [Atom (1 / midNeg) pNeg, Atom (1 / midPos) pPos])
         else if a = 0 then [Atom (1 / (b / 2)) p]
         else if b = 0 then [Atom (1 / (a / 2)) p]
         else [])
      else [Bin (min (1 / b) (1 / a)) (max (1 / b) (1 / a)) p (1 / r) s])"
| "reciprocalComponent (Tail sd x0 m f ps cp) =
     (let condMean = (if sd = Right then x0 + 1 / lambdaOf ps else x0 - 1 / lambdaOf ps)
      in if condMean \<noteq> 0 then [Atom (1 / condMean) m] else [])"

definition Dist_reciprocal :: "Dist \<Rightarrow> Dist" where
  "Dist_reciprocal this = newDist (concat (map reciprocalComponent this))"

text \<open>\<open>this.mix(other, p)\<close>: the masses of \<open>this\<close> times \<open>1 - p\<close>, those of \<open>other\<close> times \<open>p\<close>.\<close>

definition Dist_mix :: "Dist \<Rightarrow> Dist \<Rightarrow> real \<Rightarrow> Dist" where
  "Dist_mix this other p =
     newDist (map (scaleMass (1 - p)) this @ map (scaleMass p) other)"

fun meanTerm :: "DistComponent \<Rightarrow> real" where
  "meanTerm (Atom x p) = p * x"
| "meanTerm (Bin a b p r s) = (p * (a + b)) / 2"
| "meanTerm (Tail sd x0 m f ps cp) =
     m * (if sd = Right then x0 + 1 / lambdaOf ps else x0 - 1 / lambdaOf ps)"

definition Dist_mean :: "Dist \<Rightarrow> real" where
  "Dist_mean this = sum_list (map meanTerm this)"

fun e2Term :: "DistComponent \<Rightarrow> real" where
  "e2Term (Atom x p) = p * x * x"
| "e2Term (Bin a b p r s) = (p * (a * a + a * b + b * b)) / 3"
| "e2Term (Tail sd x0 m f ps cp) =
     (let condMean = (if sd = Right then x0 + 1 / lambdaOf ps else x0 - 1 / lambdaOf ps);
          condVar = 1 / (lambdaOf ps * lambdaOf ps)
      in m * (condVar + condMean * condMean))"

definition Dist_variance :: "Dist \<Rightarrow> real" where
  "Dist_variance this = sum_list (map e2Term this) - Dist_mean this * Dist_mean this"

text \<open>
  \<open>probGt(x)\<close>. A bin with \<open>a < x < b\<close> contributes its overlap fraction; the
  division is by \<open>b - a > 0\<close> there.
\<close>

fun probGtTerm :: "real \<Rightarrow> DistComponent \<Rightarrow> real" where
  "probGtTerm x (Atom cx p) = (if cx > x then p else 0)"
| "probGtTerm x (Bin a b p r s) =
     (if a \<ge> x then p
      else if b > x then p * ((b - x) / (b - a))
      else 0)"
| "probGtTerm x (Tail sd x0 m f ps cp) =
     (if sd = Right then
        (if x < x0 then m else m * exp (- lambdaOf ps * (x - x0)))
      else
        (if x < x0 then m * (1 - exp (- lambdaOf ps * (x0 - x))) else 0))"

definition Dist_probGt :: "Dist \<Rightarrow> real \<Rightarrow> real" where
  "Dist_probGt this x = sum_list (map (probGtTerm x) this)"

section \<open>core/reducer.ts\<close>

record ReduceParams =
  targetN :: real
  impactCenter :: "real option"
  impactWidthWeight :: "real option"
  tau :: "real option"
  boundaries :: "real list option"

fun getStart :: "DistComponent \<Rightarrow> ext" where
  "getStart (Atom x p) = Fin x"
| "getStart (Bin a b p r s) = Fin a"
| "getStart (Tail sd x0 m f ps cp) = (if sd = Left then NegInf else Fin x0)"

fun getEnd :: "DistComponent \<Rightarrow> ext" where
  "getEnd (Atom x p) = Fin x"
| "getEnd (Bin a b p r s) = Fin b"
| "getEnd (Tail sd x0 m f ps cp) = (if sd = Left then Fin x0 else PosInf)"

text \<open>\<open>bounds.some((b) => b >= end1 && b <= start2)\<close>\<close>

definition hasBoundaryBetween :: "ext \<Rightarrow> ext \<Rightarrow> real list \<Rightarrow> bool" where
  "hasBoundaryBetween end1 start2 bounds =
     list_ex (\<lambda>b. ext_le end1 (Fin b) \<and> ext_le (Fin b) start2) bounds"

text \<open>
  \<open>mergeComponents(comps)\<close>. The locals \<open>start\<close>, \<open>end\<close> and \<open>mean\<close> stay 0
  for a tail. The source starts \<open>minA\<close> at Infinity and \<open>maxB\<close> at -Infinity, so the
  minimum and maximum of a non-empty array are those of its elements; every call site
  passes a non-empty array (a buffer of two or more, a non-empty bucket, a pair), which
  the two arguments \<open>c\<close> (first element) and \<open>cs\<close> (the rest) record.
\<close>

fun mStart :: "DistComponent \<Rightarrow> real" where
  "mStart (Atom x p) = x"
| "mStart (Bin a b p r s) = a"
| "mStart (Tail sd x0 m f ps cp) = 0"

fun mEnd :: "DistComponent \<Rightarrow> real" where
  "mEnd (Atom x p) = x"
| "mEnd (Bin a b p r s) = b"
| "mEnd (Tail sd x0 m f ps cp) = 0"

fun mMean :: "DistComponent \<Rightarrow> real" where
  "mMean (Atom x p) = x"
| "mMean (Bin a b p r s) = r"
| "mMean (Tail sd x0 m f ps cp) = 0"

definition mergeComponents :: "DistComponent \<Rightarrow> DistComponent list \<Rightarrow> DistComponent" where
  "mergeComponents c cs =
     (let minA = fold (\<lambda>d m. min m (mStart d)) cs (mStart c);
          maxB = fold (\<lambda>d m. max m (mEnd d)) cs (mEnd c);
          totalP = sum_list (map massOf (c # cs));
          weightedRepr = sum_list (map (\<lambda>d. mMean d * massOf d) (c # cs));
          newRepr = (if totalP > 0 then weightedRepr / totalP else (minA + maxB) / 2)
      in Bin minA maxB totalP newRepr Uniform)"

fun splitOne :: "real \<Rightarrow> DistComponent \<Rightarrow> DistComponent list" where
  "splitOne bd (Bin a b p r s) =
     (if a < bd \<and> b > bd then
        (let w = b - a;
             w1 = bd - a;
             w2 = b - bd;
             p1 = p * (w1 / w);
             p2 = p * (w2 / w)
         in [Bin a bd p1 ((a + bd) / 2) s, Bin bd b p2 ((bd + b) / 2) s])
      else [Bin a b p r s])"
| "splitOne bd c = [c]"

definition splitAtBoundaries :: "DistComponent list \<Rightarrow> real list \<Rightarrow> DistComponent list" where
  "splitAtBoundaries comps bounds =
     fold (\<lambda>bd result. concat (map (splitOne bd) result)) bounds comps"

text \<open>The closure \<open>getImp\<close> of \<open>reduce\<close>, with its captured \<open>c\<close> and \<open>w\<close>.\<close>

fun getImp :: "real \<Rightarrow> real \<Rightarrow> DistComponent \<Rightarrow> real" where
  "getImp c w (Atom x p) = p * (\<bar>x - c\<bar> + w * 0)"
| "getImp c w (Bin a b p r s) = p * (\<bar>r - c\<bar> + w * (b - a))"
| "getImp c w (Tail sd x0 m f ps cp) = MAX_VALUE"

text \<open>\<open>mergeValleys\<close>: the state of the loop is \<open>(result, buffer)\<close>.\<close>

fun flushBuffer :: "DistComponent list \<Rightarrow> DistComponent list \<Rightarrow> DistComponent list" where
  "flushBuffer result [] = result"
| "flushBuffer result [c] = result @ [c]"
| "flushBuffer result (c # cs) = result @ [mergeComponents c cs]"

definition valleyStep ::
  "real \<Rightarrow> real list \<Rightarrow> (DistComponent \<Rightarrow> real) \<Rightarrow> DistComponent \<Rightarrow>
   DistComponent list \<times> DistComponent list \<Rightarrow> DistComponent list \<times> DistComponent list" where
  "valleyStep t bounds imp c st =
     (case st of (result, buffer) \<Rightarrow>
        if imp c < t then
          (if length buffer > 0 \<and> hasBoundaryBetween (getEnd (last buffer)) (getStart c) bounds
           then (flushBuffer result buffer, [c])
           else (result, buffer @ [c]))
        else (flushBuffer result buffer @ [c], []))"

definition mergeValleys ::
  "DistComponent list \<Rightarrow> real \<Rightarrow> real list \<Rightarrow> (DistComponent \<Rightarrow> real) \<Rightarrow> DistComponent list" where
  "mergeValleys comps t bounds imp =
     (case fold (valleyStep t bounds imp) comps ([], []) of
        (result, buffer) \<Rightarrow> flushBuffer result buffer)"

text \<open>
  \<open>greedyReduce\<close>. \<open>findBest\<close> is the inner \<open>for\<close> loop over the adjacent pairs, from
  index \<open>i\<close> on, with the state \<open>(bestIdx, minCost)\<close>; \<open>bestIdx = -1\<close> is \<open>None\<close>.
\<close>

fun findBest ::
  "(DistComponent \<Rightarrow> real) \<Rightarrow> real list \<Rightarrow> DistComponent list \<Rightarrow> nat \<Rightarrow>
   nat option \<times> real \<Rightarrow> nat option \<times> real" where
  "findBest imp bounds (c1 # c2 # rest) i (bestIdx, minCost) =
     (if hasBoundaryBetween (getEnd c1) (getStart c2) bounds
      then findBest imp bounds (c2 # rest) (Suc i) (bestIdx, minCost)
      else if isTail c1 \<or> isTail c2
      then findBest imp bounds (c2 # rest) (Suc i) (bestIdx, minCost)
      else if imp c1 + imp c2 < minCost
      then findBest imp bounds (c2 # rest) (Suc i) (Some i, imp c1 + imp c2)
      else findBest imp bounds (c2 # rest) (Suc i) (bestIdx, minCost))"
| "findBest imp bounds cs i acc = acc"

lemma findBest_bound:
  "fst (findBest imp bounds cs i acc) = Some j \<Longrightarrow>
   fst acc = Some j \<or> (i \<le> j \<and> Suc j < i + length cs)"
proof (induction imp bounds cs i acc rule: findBest.induct)
  case (1 imp bounds c1 c2 rest i bestIdx minCost)
  then show ?case
    by (auto split: if_splits)
qed auto

text \<open>\<open>current.splice(bestIdx, 2, merged)\<close>\<close>

definition splice2 :: "DistComponent list \<Rightarrow> nat \<Rightarrow> DistComponent \<Rightarrow> DistComponent list" where
  "splice2 current i merged = take i current @ [merged] @ drop (i + 2) current"

function greedyReduce ::
  "DistComponent list \<Rightarrow> real \<Rightarrow> real list \<Rightarrow> (DistComponent \<Rightarrow> real) \<Rightarrow> DistComponent list" where
  "greedyReduce current tN bounds imp =
     (if real (length current) > tN then
        (case fst (findBest imp bounds current 0 (None, MAX_VALUE)) of
           None \<Rightarrow> current
         | Some bestIdx \<Rightarrow>
             greedyReduce
               (splice2 current bestIdx
                  (mergeComponents (current ! bestIdx) [current ! (bestIdx + 1)]))
               tN bounds imp)
      else current)"
  by pat_completeness auto
termination
proof (relation "measure (\<lambda>(current, tN, bounds, imp). length current)")
  show "wf (measure (\<lambda>(current, tN, bounds, imp). length current))" by simp
next
  fix current :: "DistComponent list" and tN :: real and bounds :: "real list"
    and imp :: "DistComponent \<Rightarrow> real" and bestIdx :: nat
  assume "fst (findBest imp bounds current 0 (None, MAX_VALUE)) = Some bestIdx"
  from findBest_bound [OF this] have "Suc bestIdx < length current" by simp
  then show "((splice2 current bestIdx
                 (mergeComponents (current ! bestIdx) [current ! (bestIdx + 1)]),
               tN, bounds, imp), current, tN, bounds, imp)
             \<in> measure (\<lambda>(current, tN, bounds, imp). length current)"
    by (simp add: splice2_def)
qed

text \<open>
  \<open>fastBucketReduce\<close>. With a tail among \<open>comps\<close> the range is infinite,
  \<open>bucketSize\<close> is infinite, the bucket index of the tail (or, with a left tail, of
  the first component) is NaN, \<open>buckets[NaN]\<close> is undefined and \<open>push\<close> throws. Without
  tails the range is finite. \<open>Array.from({ length: targetN })\<close> makes
  \<open>\<lfloor>targetN\<rfloor>\<close> buckets (none for \<open>targetN \<le> 0\<close>); an index that is not one of
  \<open>0, ..., \<lfloor>targetN\<rfloor> - 1\<close> reads undefined and \<open>push\<close> throws. For \<open>targetN = 0\<close>
  the source's \<open>bucketSize\<close> is Infinity and the quotient is 0.
\<close>

definition bucketIndex :: "real \<Rightarrow> real \<Rightarrow> real \<Rightarrow> DistComponent \<Rightarrow> real" where
  "bucketIndex mn mx tN c =
     (let bucketSize = (mx - mn) / tN;
          center = (mStart c + mEnd c) / 2;
          q = (if tN = 0 then 0 else (center - mn) / bucketSize);
          b0 = real_of_int \<lfloor>q\<rfloor>;
          b1 = (if b0 < 0 then 0 else b0)
      in if b1 \<ge> tN then tN - 1 else b1)"

definition validBucket :: "real \<Rightarrow> real \<Rightarrow> bool" where
  "validBucket tN idx = (idx = real_of_int \<lfloor>idx\<rfloor> \<and> 0 \<le> idx \<and> idx < real_of_int \<lfloor>tN\<rfloor>)"

fun mergeBucket :: "DistComponent list \<Rightarrow> DistComponent list" where
  "mergeBucket [] = []"
| "mergeBucket (c # cs) = [mergeComponents c cs]"

definition fastBucketReduce ::
  "DistComponent list \<Rightarrow> real \<Rightarrow> real list \<Rightarrow> exn + DistComponent list" where
  "fastBucketReduce comps tN bounds =
     (case comps of
        [] \<Rightarrow> Inr comps
      | c0 # rest \<Rightarrow>
          if list_ex isTail comps then Inl TypeError
          else
            (let mn = fold (\<lambda>c m. min m (mStart c)) rest (mStart c0);
                 mx = fold (\<lambda>c m. max m (mEnd c)) rest (mEnd c0)
             in if mn \<ge> mx then Inr comps
                else if \<not> list_all (\<lambda>c. validBucket tN (bucketIndex mn mx tN c)) comps
                then Inl TypeError
                else
                  (let result = concat (map (\<lambda>j. mergeBucket
                                  (filter (\<lambda>c. bucketIndex mn mx tN c = real j) comps))
                                [0 ..< nat \<lfloor>tN\<rfloor>])
                   in if length bounds > 0 then Inr (splitAtBoundaries result bounds)
                      else Inr result)))"

definition reduce :: "Dist \<Rightarrow> ReduceParams \<Rightarrow> exn + Dist" where
  "reduce d params =
     (let comps0 = normalize d;
          bounds = (case boundaries params of None \<Rightarrow> [] | Some bs \<Rightarrow> bs);
          comps1 = (if length bounds > 0 then splitAtBoundaries comps0 bounds else comps0);
          c = (case impactCenter params of None \<Rightarrow> 0 | Some v \<Rightarrow> v);
          w = (case impactWidthWeight params of None \<Rightarrow> 0 | Some v \<Rightarrow> v);
          comps2 = (case tau params of
                      None \<Rightarrow> comps1
                    | Some t \<Rightarrow> mergeValleys comps1 t bounds (getImp c w))
      in case (if real (length comps2) > max 1000 (targetN params * 4)
               then fastBucketReduce comps2 (targetN params * 2) bounds
               else Inr comps2) of
           Inl e \<Rightarrow> Inl e
         | Inr comps3 \<Rightarrow>
             Inr (newDist (if real (length comps3) > targetN params
                           then greedyReduce comps3 (targetN params) bounds (getImp c w)
                           else comps3)))"

section \<open>engine/evaluator.ts: tokens\<close>

text \<open>
  A string is the list of its code units; the model has the code units below 256.
\<close>

datatype TokenType = NUMBER | ID | PLUS | MINUS | MUL | DIV | LPAREN | RPAREN | COMMA | COLON

type_synonym Token = "TokenType \<times> string"

fun typeName :: "TokenType \<Rightarrow> string" where
  "typeName NUMBER = ''NUMBER''"
| "typeName ID = ''ID''"
| "typeName PLUS = ''PLUS''"
| "typeName MINUS = ''MINUS''"
| "typeName MUL = ''MUL''"
| "typeName DIV = ''DIV''"
| "typeName LPAREN = ''LPAREN''"
| "typeName RPAREN = ''RPAREN''"
| "typeName COMMA = ''COMMA''"
| "typeName COLON = ''COLON''"

definition code :: "char \<Rightarrow> nat" where
  "code c = of_char c"

text \<open>\<open>/\<bsol>s/\<close>: tab, line feed, vertical tab, form feed, carriage return, space, no-break space.\<close>

definition isSpace :: "char \<Rightarrow> bool" where
  "isSpace c = (code c \<in> {9, 10, 11, 12, 13, 32, 160})"

definition isDigit :: "char \<Rightarrow> bool" where
  "isDigit c = (48 \<le> code c \<and> code c \<le> 57)"

definition isUpper :: "char \<Rightarrow> bool" where
  "isUpper c = (65 \<le> code c \<and> code c \<le> 90)"

definition isLower :: "char \<Rightarrow> bool" where
  "isLower c = (97 \<le> code c \<and> code c \<le> 122)"

text \<open>\<open>/[0-9.]/\<close>, \<open>/[A-Za-z_]/\<close>, \<open>/[A-Za-z0-9_]/\<close>\<close>

definition isNumChar :: "char \<Rightarrow> bool" where
  "isNumChar c = (isDigit c \<or> c = CHR ''.'')"

definition isIdStart :: "char \<Rightarrow> bool" where
  "isIdStart c = (isUpper c \<or> isLower c \<or> c = CHR ''_'')"

definition isIdChar :: "char \<Rightarrow> bool" where
  "isIdChar c = (isUpper c \<or> isLower c \<or> isDigit c \<or> c = CHR ''_'')"

fun punct :: "char \<Rightarrow> Token option" where
  "punct c =
     (if c = CHR ''+'' then Some (PLUS, ''+'')
      else if c = CHR ''-'' then Some (MINUS, ''-'')
      else if c = CHR ''*'' then Some (MUL, ''*'')
      else if c = CHR ''/'' then Some (DIV, ''/'')
      else if c = CHR ''('' then Some (LPAREN, ''('')
      else if c = CHR '')'' then Some (RPAREN, '')'')
      else if c = CHR '','' then Some (COMMA, '','')
      else if c = CHR '':'' then Some (COLON, '':'')
      else None)"

text \<open>
  \<open>tokenize\<close>: the argument is the input from index \<open>i\<close> on. An unknown character
  throws, and the tokens read so far are lost with it.
\<close>

function tokenize :: "string \<Rightarrow> exn + Token list" where
  "tokenize [] = Inr []"
| "tokenize (c # cs) =
     (if isSpace c then tokenize cs
      else if isNumChar c then
        (case tokenize (dropWhile isNumChar cs) of
           Inl e \<Rightarrow> Inl e
         | Inr ts \<Rightarrow> Inr ((NUMBER, c # takeWhile isNumChar cs) # ts))
      else if isIdStart c then
        (case tokenize (dropWhile isIdChar cs) of
           Inl e \<Rightarrow> Inl e
         | Inr ts \<Rightarrow> Inr ((ID, c # takeWhile isIdChar cs) # ts))
      else
        (case punct c of
           None \<Rightarrow> Inl (Error (''Unknown character: '' @ [c]))
         | Some t \<Rightarrow>
             (case tokenize cs of
                Inl e \<Rightarrow> Inl e
              | Inr ts \<Rightarrow> Inr (t # ts))))"
  by pat_completeness auto
termination
  by (relation "measure length") (auto simp: le_imp_less_Suc length_dropWhile_le)

text \<open>
  \<open>parseFloat\<close> on the value of a NUMBER token (digits and dots): the longest prefix
  \<open>digits\<close>, \<open>digits.digits\<close>, \<open>digits.\<close> or \<open>.digits\<close> is read as a decimal, and
  \<open>None\<close> is NaN (no digit before the first dot and none after it).
\<close>

definition digitVal :: "char \<Rightarrow> nat" where
  "digitVal c = code c - 48"

definition decimalNat :: "string \<Rightarrow> nat" where
  "decimalNat ds = foldl (\<lambda>n c. 10 * n + digitVal c) 0 ds"

definition parseFloat :: "string \<Rightarrow> real option" where
  "parseFloat s =
     (let ip = takeWhile isDigit s;
          rest = dropWhile isDigit s;
          fp = (case rest of
                  [] \<Rightarrow> []
                | c # cs \<Rightarrow> (if c = CHR ''.'' then takeWhile isDigit cs else []))
      in if ip = [] \<and> fp = [] then None
         else Some (real (decimalNat ip) + real (decimalNat fp) / 10 ^ length fp))"

section \<open>The object store\<close>

text \<open>
  \<open>normalize()\<close> rewrites a \<open>Dist\<close> in place, and the evaluator passes \<open>Dist\<close>
  objects by reference (a cell's value, an argument, a result can be one object). A
  \<open>Dist\<close> value of the evaluator is therefore an address into a store of \<open>Dist\<close>
  objects, \<open>new Dist(...)\<close> allocates, and \<open>normalize()\<close> updates the store.
  Addresses are handed out by \<open>newObj\<close> only, so a read is never out of range.
  Components are held by value: the source shares component objects between two
  \<open>Dist\<close>s only for tails (in \<open>scale\<close>) and for components that \<open>reduce\<close> and
  \<open>splitAt\<close> pass through unchanged.

  An evaluation returns a value, throws, or leaves the model: \<open>Unmodelled\<close> marks the
  functions that draw random numbers or whose arithmetic has no counterpart on the
  reals, and \<open>OutOfFuel\<close> a recursion depth beyond the bound given to the parser.
\<close>

type_synonym addr = nat

type_synonym heap = "Dist list"

datatype 'a outcome = Return 'a | Throw exn | Unmodelled | OutOfFuel

definition deref :: "heap \<Rightarrow> addr \<Rightarrow> Dist" where
  "deref h a = (if a < length h then h ! a else [])"

definition newObj :: "Dist \<Rightarrow> heap \<Rightarrow> addr outcome \<times> heap" where
  "newObj d h = (Return (length h), h @ [d])"

definition throwError :: "string \<Rightarrow> heap \<Rightarrow> addr outcome \<times> heap" where
  "throwError msg h = (Throw (Error msg), h)"

definition andThen ::
  "(heap \<Rightarrow> addr outcome \<times> heap) \<Rightarrow> (addr \<Rightarrow> heap \<Rightarrow> addr outcome \<times> heap) \<Rightarrow>
   heap \<Rightarrow> addr outcome \<times> heap" where
  "andThen m f h =
     (case m h of
        (Return a, h1) \<Rightarrow> f a h1
      | (Throw e, h1) \<Rightarrow> (Throw e, h1)
      | (Unmodelled, h1) \<Rightarrow> (Unmodelled, h1)
      | (OutOfFuel, h1) \<Rightarrow> (OutOfFuel, h1))"

text \<open>\<open>reduce(dist, params)\<close> on an object: normalizes it in place, returns a new object.\<close>

definition reduceDist :: "addr \<Rightarrow> ReduceParams \<Rightarrow> heap \<Rightarrow> addr outcome \<times> heap" where
  "reduceDist d params h =
     (let h1 = h[d := normalize (deref h d)]
      in case reduce (deref h d) params of
           Inl e \<Rightarrow> (Throw e, h1)
         | Inr r \<Rightarrow> newObj r h1)"

section \<open>engine/evaluator.ts: scalars and the safety check\<close>

definition isScalar :: "Dist \<Rightarrow> bool" where
  "isScalar d =
     (case d of
        [Atom x p] \<Rightarrow> \<bar>p - 1\<bar> < 1 / 10 ^ 9
      | _ \<Rightarrow> False)"

definition scalarMsg :: string where
  "scalarMsg = ''Expected scalar value (single atom with p=1)''"

definition getScalar :: "Dist \<Rightarrow> exn + real" where
  "getScalar d =
     (if isScalar d then
        (case d of
           [] \<Rightarrow> Inr 0
         | Atom x p # rest \<Rightarrow> Inr x
         | _ \<Rightarrow> Inl (Error scalarMsg))
      else Inl (Error scalarMsg))"

definition withScalar ::
  "addr \<Rightarrow> (real \<Rightarrow> heap \<Rightarrow> addr outcome \<times> heap) \<Rightarrow> heap \<Rightarrow> addr outcome \<times> heap" where
  "withScalar a f h =
     (case getScalar (deref h a) of
        Inl e \<Rightarrow> (Throw e, h)
      | Inr x \<Rightarrow> f x h)"

text \<open>
  \<open>checkSafety\<close>: \<open>lm\<close> is \<open>this.localMaxComponents\<close>, \<open>cm\<close> is
  \<open>this.ctx.maxComponents\<close>; \<open>??\<close> takes the first that is defined.
\<close>

definition safetyLimit :: "real option \<Rightarrow> real option \<Rightarrow> real" where
  "safetyLimit lm cm =
     (case lm of
        Some l \<Rightarrow> l
      | None \<Rightarrow> (case cm of Some m \<Rightarrow> m | None \<Rightarrow> 200))"

definition checkSafety ::
  "real option \<Rightarrow> real option \<Rightarrow> addr \<Rightarrow> heap \<Rightarrow> addr outcome \<times> heap" where
  "checkSafety lm cm d h =
     (if real (length (deref h d)) > safetyLimit lm cm then
        reduceDist d
          \<lparr>targetN = safetyLimit lm cm, impactCenter = None, impactWidthWeight = None,
           tau = None, boundaries = None\<rparr> h
      else (Return d, h))"

section \<open>engine/evaluator.ts: function dispatch\<close>

text \<open>\<open>toUpperCase()\<close> on a name, an ID token: only \<open>a\<close> to \<open>z\<close> change.\<close>

definition toUpperChar :: "char \<Rightarrow> char" where
  "toUpperChar c = (if isLower c then char_of (code c - 32) else c)"

definition toUpperCase :: "string \<Rightarrow> string" where
  "toUpperCase s = map toUpperChar s"

text \<open>The loops of \<open>DISCRETE\<close> and \<open>CHOICE\<close> over the pairs \<open>(args[i], args[i + 1])\<close>.\<close>

fun discretePairs :: "heap \<Rightarrow> addr list \<Rightarrow> exn + DistComponent list" where
  "discretePairs h (v # w # rest) =
     (case getScalar (deref h v) of
        Inl e \<Rightarrow> Inl e
      | Inr val \<Rightarrow>
          (case getScalar (deref h w) of
             Inl e \<Rightarrow> Inl e
           | Inr prob \<Rightarrow>
               if prob < 0 then Inl (Error ''Probability must be >= 0'')
               else (case discretePairs h rest of
                       Inl e \<Rightarrow> Inl e
                     | Inr atoms \<Rightarrow> Inr (Atom val prob # atoms))))"
| "discretePairs h rest = Inr []"

fun choicePairs :: "heap \<Rightarrow> addr list \<Rightarrow> exn + DistComponent list" where
  "choicePairs h (v # w # rest) =
     (case getScalar (deref h v) of
        Inl e \<Rightarrow> Inl e
      | Inr val \<Rightarrow>
          (case getScalar (deref h w) of
             Inl e \<Rightarrow> Inl e
           | Inr weight \<Rightarrow>
               (case choicePairs h rest of
                  Inl e \<Rightarrow> Inl e
                | Inr atoms \<Rightarrow> Inr (Atom val weight # atoms))))"
| "choicePairs h rest = Inr []"

text \<open>
  The loop of \<open>GEOM_SUM\<close>: \<open>n\<close> is \<open>maxLoops - k\<close>, the iterations left. The
  state is \<open>resultComps\<close>, \<open>currentConv\<close>, \<open>currentProb\<close>, \<open>cumulativeProb\<close>;
  the value of \<open>currentProb\<close> at the end of an iteration is the last one assigned,
  \<open>(1 - p) * Math.pow(p, k + 1)\<close>.
\<close>

fun geomLoop ::
  "nat \<Rightarrow> real option \<Rightarrow> real option \<Rightarrow> addr \<Rightarrow> real \<Rightarrow> nat \<Rightarrow>
   DistComponent list \<Rightarrow> addr \<Rightarrow> real \<Rightarrow> real \<Rightarrow> heap \<Rightarrow>
   (DistComponent list) outcome \<times> heap" where
  "geomLoop 0 lm cm baseDist p k resultComps currentConv currentProb cumulativeProb h =
     (Return resultComps, h)"
| "geomLoop (Suc n) lm cm baseDist p k resultComps currentConv currentProb cumulativeProb h =
     (let resultComps1 = resultComps @ map (scaleMass currentProb) (deref h currentConv);
          cumulativeProb1 = cumulativeProb + currentProb
      in if cumulativeProb1 > 9999 / 10000 then (Return resultComps1, h)
         else
           (case andThen (newObj (Dist_add (deref h currentConv) (deref h baseDist)))
                   (checkSafety lm cm) h of
              (Return currentConv1, h1) \<Rightarrow>
                geomLoop n lm cm baseDist p (k + 1) resultComps1 currentConv1
                  ((1 - p) * p ^ (k + 1)) cumulativeProb1 h1
            | (Throw e, h1) \<Rightarrow> (Throw e, h1)
            | (Unmodelled, h1) \<Rightarrow> (Unmodelled, h1)
            | (OutOfFuel, h1) \<Rightarrow> (OutOfFuel, h1)))"

text \<open>The loop of \<open>REPEAT_ADD\<close>, with the state \<open>acc\<close>, \<open>base\<close>, \<open>count\<close>.\<close>

function repeatLoop ::
  "real option \<Rightarrow> real option \<Rightarrow> addr \<Rightarrow> addr \<Rightarrow> int \<Rightarrow> heap \<Rightarrow> addr outcome \<times> heap" where
  "repeatLoop lm cm acc base count h =
     (if count > 0 then
        (case (if count mod 2 = 1
               then andThen (newObj (Dist_add (deref h acc) (deref h base)))
                      (checkSafety lm cm) h
               else (Return acc, h)) of
           (Return acc1, h1) \<Rightarrow>
             (case andThen (newObj (Dist_add (deref h1 base) (deref h1 base)))
                     (checkSafety lm cm) h1 of
                (Return base1, h2) \<Rightarrow> repeatLoop lm cm acc1 base1 (count div 2) h2
              | (Throw e, h2) \<Rightarrow> (Throw e, h2)
              | (Unmodelled, h2) \<Rightarrow> (Unmodelled, h2)
              | (OutOfFuel, h2) \<Rightarrow> (OutOfFuel, h2))
         | (Throw e, h1) \<Rightarrow> (Throw e, h1)
         | (Unmodelled, h1) \<Rightarrow> (Unmodelled, h1)
         | (OutOfFuel, h1) \<Rightarrow> (OutOfFuel, h1))
      else (Return acc, h))"
  by pat_completeness auto
termination
  by (relation "measure (\<lambda>(lm, cm, acc, base, count, h). nat count)") auto

definition withComps ::
  "(DistComponent list) outcome \<times> heap \<Rightarrow>
   (DistComponent list \<Rightarrow> heap \<Rightarrow> addr outcome \<times> heap) \<Rightarrow> addr outcome \<times> heap" where
  "withComps r f =
     (case r of
        (Return cs, h1) \<Rightarrow> f cs h1
      | (Throw e, h1) \<Rightarrow> (Throw e, h1)
      | (Unmodelled, h1) \<Rightarrow> (Unmodelled, h1)
      | (OutOfFuel, h1) \<Rightarrow> (OutOfFuel, h1))"

text \<open>\<open>args.length > i ? this.getScalar(args[i]) : dflt\<close>, for \<open>rest\<close> the arguments from \<open>args[2]\<close> on.\<close>

definition optScalar ::
  "addr list \<Rightarrow> nat \<Rightarrow> real \<Rightarrow> (real \<Rightarrow> heap \<Rightarrow> addr outcome \<times> heap) \<Rightarrow>
   heap \<Rightarrow> addr outcome \<times> heap" where
  "optScalar rest i dflt f h =
     (if i < length rest then withScalar (rest ! i) f h else f dflt h)"

text \<open>
  The part of \<open>parseFunctionCall\<close> from the comment \<open>// Dispatch\<close> on: \<open>args\<close> are
  the evaluated arguments. The functions left \<open>Unmodelled\<close> call \<open>Math.random\<close>
  (RESAMPLE, RUIN_PROB) or \<open>Math.exp\<close>, \<open>Math.pow\<close>, \<open>Math.sqrt\<close>, \<open>Math.log\<close>
  on arguments for which the source computes NaN or an infinity.
\<close>

definition dispatch ::
  "real option \<Rightarrow> real option \<Rightarrow> string \<Rightarrow> addr list \<Rightarrow> heap \<Rightarrow> addr outcome \<times> heap" where
  "dispatch lm cm name args h =
     (let fn = toUpperCase name in
      if fn = ''CONST'' then
        (case args of
           [a0] \<Rightarrow> withScalar a0 (\<lambda>x. newObj (newDist [Atom x 1])) h
         | _ \<Rightarrow> throwError ''CONST requires 1 arg (x)'' h)
      else if fn = ''UNIFORM'' then
        (case args of
           [a0, a1] \<Rightarrow>
             withScalar a0 (\<lambda>mn. withScalar a1 (\<lambda>mx.
               if mn \<ge> mx then throwError ''UNIFORM min must be < max''
               else newObj (newDist [Bin mn mx 1 ((mn + mx) / 2) Uniform]))) h
         | _ \<Rightarrow> throwError ''UNIFORM requires 2 args (min, max)'' h)
      else if fn = ''NORMAL'' then (Unmodelled, h)
      else if fn = ''DISCRETE'' then
        (if length args = 0 \<or> length args mod 2 \<noteq> 0
         then throwError ''DISCRETE requires pairs of args (value, prob, ...)'' h
         else (case discretePairs h args of
                 Inl e \<Rightarrow> (Throw e, h)
               | Inr atoms \<Rightarrow>
                   if sum_list (map massOf atoms) = 0
                   then throwError ''Total probability cannot be zero'' h
                   else newObj (newDist atoms) h))
      else if fn = ''EXPONENTIAL'' then (Unmodelled, h)
      else if fn = ''POISSON'' then (Unmodelled, h)
      else if fn = ''BINOMIAL'' then (Unmodelled, h)
      else if fn = ''ADD'' then
        (case args of
           [a0, a1] \<Rightarrow>
             andThen (newObj (Dist_add (deref h a0) (deref h a1))) (checkSafety lm cm) h
         | _ \<Rightarrow> throwError ''ADD requires 2 args (A, B)'' h)
      else if fn = ''CONVOLVE'' then
        (case args of
           [a0, a1] \<Rightarrow>
             andThen (newObj (Dist_add (deref h a0) (deref h a1))) (checkSafety lm cm) h
         | _ \<Rightarrow> throwError ''CONVOLVE requires 2 args (d1, d2)'' h)
      else if fn = ''MUL'' then
        (case args of
           [a0, a1] \<Rightarrow>
             if isScalar (deref h a0) then
               withScalar a0 (\<lambda>k h1.
                 andThen (newObj (Dist_scale (deref h1 a1) k)) (checkSafety lm cm) h1) h
             else if isScalar (deref h a1) then
               withScalar a1 (\<lambda>k h1.
                 andThen (newObj (Dist_scale (deref h1 a0) k)) (checkSafety lm cm) h1) h
             else throwError ''MUL currently supports only Scalar * Dist or Dist * Scalar'' h
         | _ \<Rightarrow> throwError ''MUL requires 2 args (A, B)'' h)
      else if fn = ''DIV'' then
        (case args of
           [a0, a1] \<Rightarrow>
             if isScalar (deref h a1) then
               withScalar a1 (\<lambda>k h1.
                 if k = 0 then throwError ''Division by Zero'' h1
                 else andThen (newObj (Dist_scale (deref h1 a0) (1 / k)))
                        (checkSafety lm cm) h1) h
             else if isScalar (deref h a0) then
               withScalar a0 (\<lambda>k h1.
                 andThen (newObj (Dist_scale (Dist_reciprocal (deref h1 a1)) k))
                   (checkSafety lm cm) h1) h
             else throwError ''DIV of two Distributions not supported'' h
         | _ \<Rightarrow> throwError ''DIV requires 2 args (A, B)'' h)
      else if fn = ''POWER'' then (Unmodelled, h)
      else if fn = ''BIN'' then
        (case args of
           a0 # a1 # rest \<Rightarrow>
             withScalar a0 (\<lambda>a. withScalar a1 (\<lambda>b.
               optScalar rest 0 1 (\<lambda>p.
                 newObj (newDist [Bin a b p ((a + b) / 2) Uniform])))) h
         | _ \<Rightarrow> throwError ''BIN requires at least 2 args (a, b, [p])'' h)
      else if fn = ''SCALE'' then
        (case args of
           [a0, a1] \<Rightarrow>
             withScalar a1 (\<lambda>k h1.
               andThen (newObj (Dist_scale (deref h1 a0) k)) (checkSafety lm cm) h1) h
         | _ \<Rightarrow> throwError ''SCALE requires 2 args (A, k)'' h)
      else if fn = ''MIX'' then
        (case args of
           [a0, a1, a2] \<Rightarrow>
             withScalar a0 (\<lambda>p h1.
               andThen (newObj (Dist_mix (deref h1 a2) (deref h1 a1) p))
                 (checkSafety lm cm) h1) h
         | _ \<Rightarrow> throwError ''MIX requires 3 args (A, B, p)'' h)
      else if fn = ''REDUCE'' then
        (case args of
           a0 # a1 # rest \<Rightarrow>
             withScalar a1 (\<lambda>tN.
               optScalar rest 0 0 (\<lambda>ic.
                 optScalar rest 1 (1 / 100) (\<lambda>t.
                   optScalar rest 3 0 (\<lambda>ww.
                     reduceDist a0
                       \<lparr>targetN = tN, impactCenter = Some ic, impactWidthWeight = Some ww,
                        tau = Some t, boundaries = Some [0]\<rparr>)))) h
         | _ \<Rightarrow> throwError ''REDUCE requires at least 2 args (A, targetN)'' h)
      else if fn = ''GEOM_SUM'' then
        (case args of
           [a0, a1] \<Rightarrow>
             withScalar a1 (\<lambda>p h1.
               if p < 0 \<or> p \<ge> 1 then throwError ''p must be in [0, 1)'' h1
               else if p = 0 then newObj (newDist [Atom 0 1]) h1
               else
                 andThen (newObj (newDist [Atom 0 1])) (\<lambda>currentConv h2.
                   withComps (geomLoop 2000 lm cm a0 p 0 [] currentConv (1 - p) 0 h2)
                     (\<lambda>resultComps.
                        andThen (newObj (newDist resultComps)) (checkSafety lm cm))) h1) h
         | _ \<Rightarrow> throwError ''GEOM_SUM requires 2 args (Dist, p)'' h)
      else if fn = ''REPEAT_ADD'' then
        (case args of
           [a0, a1] \<Rightarrow>
             withScalar a1 (\<lambda>x h1.
               if \<lfloor>x\<rfloor> \<le> 0 then newObj (newDist [Atom 0 1]) h1
               else if \<lfloor>x\<rfloor> = 1 then (Return a0, h1)
               else andThen (newObj (newDist [Atom 0 1]))
                      (\<lambda>acc. repeatLoop lm cm acc a0 \<lfloor>x\<rfloor>) h1) h
         | _ \<Rightarrow> throwError ''REPEAT_ADD requires 2 args (Dist, N)'' h)
      else if fn = ''MEAN'' then
        (case args of
           [a0] \<Rightarrow> newObj (newDist [Atom (Dist_mean (deref h a0)) 1]) h
         | _ \<Rightarrow> throwError ''MEAN requires 1 arg (A)'' h)
      else if fn = ''PROB_GT'' then
        (case args of
           [a0, a1] \<Rightarrow>
             withScalar a1 (\<lambda>v h1.
               newObj (newDist [Atom (Dist_probGt (deref h1 a0) v) 1]) h1) h
         | _ \<Rightarrow> throwError ''PROB_GT requires 2 args (A, x)'' h)
      else if fn = ''RESAMPLE'' then (Unmodelled, h)
      else if fn = ''REF'' then
        (case args of
           [a0] \<Rightarrow> (Return a0, h)
         | _ \<Rightarrow> throwError ''REF requires 1 arg'' h)
      else if fn = ''SUB'' then
        (case args of
           [a0, a1] \<Rightarrow>
             andThen (newObj (Dist_sub (deref h a0) (deref h a1))) (checkSafety lm cm) h
         | _ \<Rightarrow> throwError ''SUB requires 2 args (A, B)'' h)
      else if fn = ''VAR'' then
        (case args of
           [a0] \<Rightarrow> newObj (newDist [Atom (Dist_variance (deref h a0)) 1]) h
         | _ \<Rightarrow> throwError ''VAR requires 1 arg (Dist)'' h)
      else if fn = ''STD'' then (Unmodelled, h)
      else if fn = ''MEDIAN'' then (Unmodelled, h)
      else if fn = ''SHIFT'' then
        (case args of
           [a0, a1] \<Rightarrow>
             withScalar a1 (\<lambda>k h1.
               andThen (newObj (Dist_add (deref h1 a0) (newDist [Atom k 1])))
                 (checkSafety lm cm) h1) h
         | _ \<Rightarrow> throwError ''SHIFT requires 2 args (Dist, k)'' h)
      else if fn = ''CHOICE'' then
        (if length args < 2 \<or> length args mod 2 \<noteq> 0
         then throwError ''CHOICE requires even args (v1, p1, v2, p2, ...)'' h
         else (case choicePairs h args of
                 Inl e \<Rightarrow> (Throw e, h)
               | Inr atoms \<Rightarrow>
                   andThen (newObj (normalize (newDist atoms))) (checkSafety lm cm) h))
      else if fn = ''MAX_OF'' then (Unmodelled, h)
      else if fn = ''RUIN_PROB'' then (Unmodelled, h)
      else throwError (''Unknown function: '' @ name) h)"

section \<open>engine/evaluator.ts: ranges\<close>

text \<open>
  \<open>expandRange(start, end)\<close>. \<open>parseCell\<close> matches the upper-cased reference against
  \<open>/^([A-Z]+)([0-9]+)$/\<close>. Row and column numbers are natural numbers here (the
  source's are doubles, exact below \<open>2^53\<close>).
\<close>

definition parseCell :: "string \<Rightarrow> exn + string \<times> nat" where
  "parseCell cell =
     (let u = toUpperCase cell;
          col = takeWhile isUpper u;
          digits = dropWhile isUpper u
      in if col \<noteq> [] \<and> digits \<noteq> [] \<and> list_all isDigit digits
         then Inr (col, decimalNat digits)
         else Inl (Error (''Invalid cell ref in range: '' @ cell)))"

definition colToIndex :: "string \<Rightarrow> nat" where
  "colToIndex col = foldl (\<lambda>sum c. sum * 26 + (code c - 65 + 1)) 0 col - 1"

function indexToColLoop :: "int \<Rightarrow> string \<Rightarrow> string" where
  "indexToColLoop n str =
     (if n \<ge> 0 then indexToColLoop (n div 26 - 1) (char_of (65 + n mod 26) # str)
      else str)"
  by pat_completeness auto
termination
  by (relation "measure (\<lambda>(n, str). nat (n + 1))") auto

definition indexToCol :: "nat \<Rightarrow> string" where
  "indexToCol idx = indexToColLoop (int idx) []"

text \<open>The decimal digits of a row number, as the template literal prints it.\<close>

function showNat :: "nat \<Rightarrow> string" where
  "showNat n =
     (if n < 10 then [char_of (48 + n)]
      else showNat (n div 10) @ [char_of (48 + n mod 10)])"
  by pat_completeness auto
termination
  by (relation "measure id") auto

definition expandRange :: "string \<Rightarrow> string \<Rightarrow> exn + string list" where
  "expandRange startRef endRef =
     (case parseCell startRef of
        Inl e \<Rightarrow> Inl e
      | Inr (scol, srow) \<Rightarrow>
          (case parseCell endRef of
             Inl e \<Rightarrow> Inl e
           | Inr (ecol, erow) \<Rightarrow>
               (let c1 = colToIndex scol;
                    c2 = colToIndex ecol;
                    minC = min c1 c2;
                    maxC = max c1 c2;
                    minR = min srow erow;
                    maxR = max srow erow
                in Inr (concat (map (\<lambda>r. map (\<lambda>c. indexToCol c @ showNat r)
                                             [minC ..< Suc maxC])
                                 [minR ..< Suc maxR])))))"

section \<open>engine/evaluator.ts: the parser\<close>

text \<open>
  \<open>EvalContext\<close>: \<open>getValue\<close> is a callback into its owner, whose state is
  \<open>'e\<close>; it may allocate (a graph creates a cell on first access). \<open>wasmMonteCarlo\<close>
  is read by RUIN_PROB only.

  A \<open>Parser\<close> holds \<open>tokens\<close> and \<open>pos\<close>, here the list of the tokens from
  \<open>pos\<close> on, and \<open>localMaxComponents\<close>; the model adds the object store and the
  state of the context's owner, which the parser's methods read and write.
\<close>

record 'e EvalContext =
  getValue :: "string \<Rightarrow> heap \<times> 'e \<Rightarrow> addr \<times> heap \<times> 'e"
  maxComponents :: "real option"

record 'e Parser =
  tokens :: "Token list"
  localMaxComponents :: "real option"
  store :: heap
  world :: 'e

definition bindP ::
  "'a outcome \<times> 's \<Rightarrow> ('a \<Rightarrow> 's \<Rightarrow> 'b outcome \<times> 's) \<Rightarrow> 'b outcome \<times> 's" where
  "bindP r f =
     (case r of
        (Return a, s) \<Rightarrow> f a s
      | (Throw e, s) \<Rightarrow> (Throw e, s)
      | (Unmodelled, s) \<Rightarrow> (Unmodelled, s)
      | (OutOfFuel, s) \<Rightarrow> (OutOfFuel, s))"

definition liftH ::
  "(heap \<Rightarrow> addr outcome \<times> heap) \<Rightarrow> 'e Parser \<Rightarrow> addr outcome \<times> 'e Parser" where
  "liftH m st = (case m (store st) of (r, h) \<Rightarrow> (r, st\<lparr>store := h\<rparr>))"

text \<open>
  \<open>expect(type)\<close> consumes a token, then throws if there was none or its type is
  another; it returns the token's value.
\<close>

definition expect :: "TokenType \<Rightarrow> 'e Parser \<Rightarrow> string outcome \<times> 'e Parser" where
  "expect ty st =
     (case tokens st of
        [] \<Rightarrow> (Throw (Error (''Expected '' @ typeName ty @ '', got undefined'')), st)
      | (t, v) # rest \<Rightarrow>
          if t = ty then (Return v, st\<lparr>tokens := rest\<rparr>)
          else (Throw (Error (''Expected '' @ typeName ty @ '', got '' @ typeName t)),
                st\<lparr>tokens := rest\<rparr>))"

definition callGetValue :: "'e EvalContext \<Rightarrow> string \<Rightarrow> 'e Parser \<Rightarrow> addr outcome \<times> 'e Parser" where
  "callGetValue ctx ident st =
     (case getValue ctx ident (store st, world st) of
        (a, h, w) \<Rightarrow> (Return a, st\<lparr>store := h, world := w\<rparr>))"

text \<open>\<open>cells.forEach((id) => args.push(this.ctx.getValue(id)))\<close>\<close>

fun getValues ::
  "'e EvalContext \<Rightarrow> string list \<Rightarrow> addr list \<Rightarrow> 'e Parser \<Rightarrow> (addr list) outcome \<times> 'e Parser" where
  "getValues ctx [] args st = (Return args, st)"
| "getValues ctx (c # cells) args st =
     (case getValue ctx c (store st, world st) of
        (a, h, w) \<Rightarrow> getValues ctx cells (args @ [a]) (st\<lparr>store := h, world := w\<rparr>))"

text \<open>The bodies of the MUL and DIV branches of \<open>parseTerm\<close>, up to and with \<open>checkSafety\<close>.\<close>

definition mulStep ::
  "real option \<Rightarrow> real option \<Rightarrow> addr \<Rightarrow> addr \<Rightarrow> heap \<Rightarrow> addr outcome \<times> heap" where
  "mulStep lm cm left right h =
     (if isScalar (deref h right) then
        withScalar right (\<lambda>k h1.
          andThen (newObj (Dist_scale (deref h1 left) k)) (checkSafety lm cm) h1) h
      else if isScalar (deref h left) then
        withScalar left (\<lambda>k h1.
          andThen (newObj (Dist_scale (deref h1 right) k)) (checkSafety lm cm) h1) h
      else throwError ''Multiplication of two Distributions not supported (Scalar required)'' h)"

definition divStep ::
  "real option \<Rightarrow> real option \<Rightarrow> addr \<Rightarrow> addr \<Rightarrow> heap \<Rightarrow> addr outcome \<times> heap" where
  "divStep lm cm left right h =
     (if isScalar (deref h right) then
        withScalar right (\<lambda>k h1.
          if k = 0 then throwError ''Division by Zero'' h1
          else andThen (newObj (Dist_scale (deref h1 left) (1 / k))) (checkSafety lm cm) h1) h
      else if isScalar (deref h left) then
        withScalar left (\<lambda>k h1.
          andThen (newObj (Dist_scale (Dist_reciprocal (deref h1 right)) k))
            (checkSafety lm cm) h1) h
      else throwError ''Division of two Distributions not supported'' h)"


text \<open>
  The recursive descent. The first argument bounds the depth of the recursion: every
  call passes it on decreased by one, and at 0 the result is \<open>OutOfFuel\<close>.
  \<open>peekType\<close> is \<open>this.peek()?.type\<close> (\<open>None\<close> for undefined).
  \<open>exprLoop\<close> and \<open>termLoop\<close> are the \<open>while\<close> loops of \<open>parseExpression\<close> and
  \<open>parseTerm\<close> with their variable \<open>left\<close>; \<open>parseArgs\<close> is \<open>tryParseArg()\<close>
  followed by the \<open>while\<close> loop over the commas, with the array \<open>args\<close>.
  A NUMBER token that \<open>parseFloat\<close> reads as NaN leaves the model.
\<close>

definition peekType :: "'e Parser \<Rightarrow> TokenType option" where
  "peekType st = (case tokens st of [] \<Rightarrow> None | (t, v) # rest \<Rightarrow> Some t)"

definition peekValue :: "'e Parser \<Rightarrow> string" where
  "peekValue st = (case tokens st of [] \<Rightarrow> [] | (t, v) # rest \<Rightarrow> v)"

definition consume :: "'e Parser \<Rightarrow> 'e Parser" where
  "consume st = st\<lparr>tokens := tl (tokens st)\<rparr>"

function (sequential) parseExpression ::
    "nat \<Rightarrow> 'e EvalContext \<Rightarrow> 'e Parser \<Rightarrow> addr outcome \<times> 'e Parser"
  and exprLoop ::
    "nat \<Rightarrow> 'e EvalContext \<Rightarrow> addr \<Rightarrow> 'e Parser \<Rightarrow> addr outcome \<times> 'e Parser"
  and parseTerm ::
    "nat \<Rightarrow> 'e EvalContext \<Rightarrow> 'e Parser \<Rightarrow> addr outcome \<times> 'e Parser"
  and termLoop ::
    "nat \<Rightarrow> 'e EvalContext \<Rightarrow> addr \<Rightarrow> 'e Parser \<Rightarrow> addr outcome \<times> 'e Parser"
  and parseFactor ::
    "nat \<Rightarrow> 'e EvalContext \<Rightarrow> 'e Parser \<Rightarrow> addr outcome \<times> 'e Parser"
  and parseFunctionCall ::
    "nat \<Rightarrow> 'e EvalContext \<Rightarrow> string \<Rightarrow> 'e Parser \<Rightarrow> addr outcome \<times> 'e Parser"
  and parseArgs ::
    "nat \<Rightarrow> 'e EvalContext \<Rightarrow> addr list \<Rightarrow> 'e Parser \<Rightarrow> (addr list) outcome \<times> 'e Parser"
  and tryParseArg ::
    "nat \<Rightarrow> 'e EvalContext \<Rightarrow> addr list \<Rightarrow> 'e Parser \<Rightarrow> (addr list) outcome \<times> 'e Parser"
where
  "parseExpression 0 ctx st = (OutOfFuel, st)"
| "parseExpression (Suc n) ctx st =
     bindP (parseTerm n ctx st) (\<lambda>left st1. exprLoop n ctx left st1)"
| "exprLoop 0 ctx left st = (OutOfFuel, st)"
| "exprLoop (Suc n) ctx left st =
     (if peekType st = Some PLUS then
        bindP (parseTerm n ctx (consume st)) (\<lambda>right st1.
          bindP (liftH (andThen
                   (newObj (Dist_add (deref (store st1) left) (deref (store st1) right)))
                   (checkSafety (localMaxComponents st1) (maxComponents ctx))) st1)
            (\<lambda>left1 st2. exprLoop n ctx left1 st2))
      else if peekType st = Some MINUS then
        bindP (parseTerm n ctx (consume st)) (\<lambda>right st1.
          bindP (liftH (andThen
                   (newObj (Dist_sub (deref (store st1) left) (deref (store st1) right)))
                   (checkSafety (localMaxComponents st1) (maxComponents ctx))) st1)
            (\<lambda>left1 st2. exprLoop n ctx left1 st2))
      else (Return left, st))"
| "parseTerm 0 ctx st = (OutOfFuel, st)"
| "parseTerm (Suc n) ctx st =
     bindP (parseFactor n ctx st) (\<lambda>left st1. termLoop n ctx left st1)"
| "termLoop 0 ctx left st = (OutOfFuel, st)"
| "termLoop (Suc n) ctx left st =
     (if peekType st = Some MUL then
        bindP (parseFactor n ctx (consume st)) (\<lambda>right st1.
          bindP (liftH (mulStep (localMaxComponents st1) (maxComponents ctx) left right) st1)
            (\<lambda>left1 st2. termLoop n ctx left1 st2))
      else if peekType st = Some DIV then
        bindP (parseFactor n ctx (consume st)) (\<lambda>right st1.
          bindP (liftH (divStep (localMaxComponents st1) (maxComponents ctx) left right) st1)
            (\<lambda>left1 st2. termLoop n ctx left1 st2))
      else (Return left, st))"
| "parseFactor 0 ctx st = (OutOfFuel, st)"
| "parseFactor (Suc n) ctx st =
     (if peekType st = None then (Throw (Error ''Unexpected end of input''), st)
      else if peekType st = Some NUMBER then
        (case parseFloat (peekValue st) of
           None \<Rightarrow> (Unmodelled, consume st)
         | Some val \<Rightarrow> liftH (newObj (newDist [Atom val 1])) (consume st))
      else if peekType st = Some ID then
        (if peekType (consume st) = Some LPAREN
         then parseFunctionCall n ctx (peekValue st) (consume st)
         else callGetValue ctx (peekValue st) (consume st))
      else if peekType st = Some MINUS then
        bindP (parseFactor n ctx (consume st)) (\<lambda>factor st1.
          liftH (newObj (Dist_scale (deref (store st1) factor) (- 1))) st1)
      else if peekType st = Some LPAREN then
        bindP (parseExpression n ctx (consume st)) (\<lambda>expr st1.
          bindP (expect RPAREN st1) (\<lambda>v1 st2. (Return expr, st2)))
      else (Throw (Error (''Unexpected token: '' @
              (case peekType st of None \<Rightarrow> [] | Some t \<Rightarrow> typeName t))), st))"
| "parseFunctionCall 0 ctx name st = (OutOfFuel, st)"
| "parseFunctionCall (Suc n) ctx name st =
     bindP (expect LPAREN st) (\<lambda>v0 st1.
       if peekType st1 \<noteq> Some RPAREN then
         (if toUpperCase name = ''CONFIG'' then
            bindP (parseExpression n ctx st1) (\<lambda>limitDist st2.
              (case getScalar (deref (store st2) limitDist) of
                 Inl e \<Rightarrow> (Throw e, st2)
               | Inr limit \<Rightarrow>
                   bindP (expect COMMA st2) (\<lambda>v1 st3.
                     bindP (parseExpression n ctx (st3\<lparr>localMaxComponents := Some limit\<rparr>))
                       (\<lambda>result st5.
                          bindP (expect RPAREN
                                   (st5\<lparr>localMaxComponents := localMaxComponents st3\<rparr>))
                            (\<lambda>v2 st7. (Return result, st7))))))
          else
            bindP (parseArgs n ctx [] st1) (\<lambda>args st2.
              bindP (expect RPAREN st2) (\<lambda>v1 st3.
                liftH (dispatch (localMaxComponents st3) (maxComponents ctx) name args) st3)))
       else
         bindP (expect RPAREN st1) (\<lambda>v1 st3.
           liftH (dispatch (localMaxComponents st3) (maxComponents ctx) name []) st3))"
| "parseArgs 0 ctx args st = (OutOfFuel, st)"
| "parseArgs (Suc n) ctx args st =
     bindP (tryParseArg n ctx args st) (\<lambda>args1 st1.
       if peekType st1 = Some COMMA then parseArgs n ctx args1 (consume st1)
       else (Return args1, st1))"
| "tryParseArg 0 ctx args st = (OutOfFuel, st)"
| "tryParseArg (Suc n) ctx args st =
     (if peekType st = Some ID \<and> peekType (consume st) = Some COLON then
        bindP (expect ID (consume (consume st))) (\<lambda>endId st1.
          (case expandRange (peekValue st) endId of
             Inl e \<Rightarrow> (Throw e, st1)
           | Inr cells \<Rightarrow> getValues ctx cells args st1))
      else bindP (parseExpression n ctx st) (\<lambda>a st1. (Return (args @ [a]), st1)))"
  by pat_completeness auto
termination
  by (relation "measure (case_sum (case_sum (case_sum fst fst) (case_sum fst fst))
                  (case_sum (case_sum fst fst) (case_sum fst fst)))") auto

text \<open>
  \<open>evaluate(expr, ctx)\<close>: any exception is caught and thrown again as
  \<open>Error("Eval Error: " + message)\<close>. \<open>typeErrorMessage\<close> is the engine's text for a
  \<open>push\<close> on undefined (here V8's). The tokens after the first expression are not read.
\<close>

definition typeErrorMessage :: string where
  "typeErrorMessage = ''Cannot read properties of undefined (reading '' @ [CHR 0x27]
     @ ''push'' @ [CHR 0x27] @ '')''"

fun messageOf :: "exn \<Rightarrow> string" where
  "messageOf (Error m) = m"
| "messageOf TypeError = typeErrorMessage"

definition wrapError :: "exn \<Rightarrow> exn" where
  "wrapError e = Error (''Eval Error: '' @ messageOf e)"

definition evaluate ::
  "nat \<Rightarrow> string \<Rightarrow> 'e EvalContext \<Rightarrow> heap \<times> 'e \<Rightarrow> addr outcome \<times> heap \<times> 'e" where
  "evaluate n expr ctx hw =
     (case hw of (h, w) \<Rightarrow>
        if expr = [] then (Return (length h), h @ [newDist []], w)
        else
          (case tokenize expr of
             Inl e \<Rightarrow> (Throw (wrapError e), h, w)
           | Inr ts \<Rightarrow>
               (case parseExpression n ctx
                       \<lparr>tokens = ts, localMaxComponents = None, store = h, world = w\<rparr> of
                  (Throw e, st) \<Rightarrow> (Throw (wrapError e), store st, world st)
                | (r, st) \<Rightarrow> (r, store st, world st))))"


section \<open>engine/cell.ts, engine/graph.ts\<close>

text \<open>
  A \<open>Set<string>\<close> is the list of its elements in insertion order, a
  \<open>Map<string, V>\<close> the list of its entries in insertion order. The field
  \<open>cellValue\<close> (\<open>value\<close> in the source) is a reference to a \<open>Dist\<close> object.
  The graph's \<open>objects\<close> is the object store; its listeners are callbacks of the
  user interface and are not part of the model.
\<close>

datatype CellStatus = Pending | Ok | Err | Circular | Evaluating

record Cell =
  cellId :: string
  rawInput :: string
  cellValue :: addr
  status :: CellStatus
  cellError :: "string option"
  dependencies :: "string list"
  dependents :: "string list"

record Graph =
  cells :: "(string \<times> Cell) list"
  dirtyTrack :: "string list"
  configMaxComponents :: real
  objects :: heap

definition setAdd :: "string \<Rightarrow> string list \<Rightarrow> string list" where
  "setAdd x xs = (if x \<in> set xs then xs else xs @ [x])"

definition setDelete :: "string \<Rightarrow> string list \<Rightarrow> string list" where
  "setDelete x xs = removeAll x xs"

text \<open>\<open>new Cell(id)\<close>, its empty \<open>Dist\<close> allocated at \<open>a\<close>.\<close>

definition newCell :: "string \<Rightarrow> addr \<Rightarrow> Cell" where
  "newCell ident a =
     \<lparr>cellId = ident, rawInput = [], cellValue = a, status = Ok, cellError = None,
      dependencies = [], dependents = []\<rparr>"

text \<open>
  \<open>getCell(id)\<close> on the pair of the store and the cell table: it creates the cell when
  there is none. \<open>ensureCell\<close> is the same call made for this effect alone, and
  \<open>theCell\<close> reads a cell (every read below follows an \<open>ensureCell\<close> of the same
  id or is of a key of the table).
\<close>

definition getCellIn ::
  "string \<Rightarrow> heap \<times> (string \<times> Cell) list \<Rightarrow> Cell \<times> heap \<times> (string \<times> Cell) list" where
  "getCellIn ident hw =
     (case hw of (h, cs) \<Rightarrow>
        (case map_of cs ident of
           Some c \<Rightarrow> (c, h, cs)
         | None \<Rightarrow> (newCell ident (length h), h @ [newDist []],
                    cs @ [(ident, newCell ident (length h))])))"

definition ensureCell :: "Graph \<Rightarrow> string \<Rightarrow> Graph" where
  "ensureCell g ident =
     (case getCellIn ident (objects g, cells g) of
        (c, h, cs) \<Rightarrow> g\<lparr>cells := cs, objects := h\<rparr>)"

definition theCell :: "Graph \<Rightarrow> string \<Rightarrow> Cell" where
  "theCell g ident =
     (case map_of (cells g) ident of
        Some c \<Rightarrow> c
      | None \<Rightarrow> newCell ident (length (objects g)))"

text \<open>An assignment to fields of the cell object \<open>id\<close>.\<close>

definition updateCell :: "string \<Rightarrow> (Cell \<Rightarrow> Cell) \<Rightarrow> Graph \<Rightarrow> Graph" where
  "updateCell ident f g =
     g\<lparr>cells := map (\<lambda>(k, c). if k = ident then (k, f c) else (k, c)) (cells g)\<rparr>"

definition markDirty :: "string \<Rightarrow> Graph \<Rightarrow> Graph" where
  "markDirty ident g = g\<lparr>dirtyTrack := setAdd ident (dirtyTrack g)\<rparr>"

text \<open>
  \<open>detectDependencies\<close>: the matches of \<open>/\<bsol>b([A-Z]+[0-9]+)\<bsol>b/g\<close>. A match starts
  and ends at a word boundary, so it is a whole maximal run of word characters
  \<open>[A-Za-z0-9_]\<close>, and the run has the form \<open>[A-Z]+[0-9]+\<close>.
\<close>

function splitWords :: "string \<Rightarrow> string list" where
  "splitWords [] = []"
| "splitWords (c # cs) =
     (if isIdChar c then (c # takeWhile isIdChar cs) # splitWords (dropWhile isIdChar cs)
      else splitWords cs)"
  by pat_completeness auto
termination
  by (relation "measure length") (auto simp: le_imp_less_Suc length_dropWhile_le)

definition isRef :: "string \<Rightarrow> bool" where
  "isRef w =
     (takeWhile isUpper w \<noteq> [] \<and> dropWhile isUpper w \<noteq> []
      \<and> list_all isDigit (dropWhile isUpper w))"

definition detectDependencies :: "string \<Rightarrow> string list" where
  "detectDependencies input = fold setAdd (filter isRef (splitWords input)) []"

text \<open>\<open>updateDependencies(cell, newDeps)\<close>, for the cell \<open>ident\<close>.\<close>

definition removeOldDep :: "string \<Rightarrow> string list \<Rightarrow> string \<Rightarrow> Graph \<Rightarrow> Graph" where
  "removeOldDep ident newDeps oldDepId g =
     (if oldDepId \<notin> set newDeps
      then updateCell oldDepId (\<lambda>c. c\<lparr>dependents := setDelete ident (dependents c)\<rparr>)
             (ensureCell g oldDepId)
      else g)"

definition addNewDep :: "string \<Rightarrow> string list \<Rightarrow> string \<Rightarrow> Graph \<Rightarrow> Graph" where
  "addNewDep ident oldDeps newDepId g =
     (if newDepId \<notin> set oldDeps
      then updateCell newDepId (\<lambda>c. c\<lparr>dependents := setAdd ident (dependents c)\<rparr>)
             (ensureCell g newDepId)
      else g)"

definition updateDependencies :: "Graph \<Rightarrow> string \<Rightarrow> string list \<Rightarrow> Graph" where
  "updateDependencies g ident newDeps =
     (let oldDeps = dependencies (theCell g ident);
          g1 = fold (removeOldDep ident newDeps) oldDeps g;
          g2 = fold (addNewDep ident oldDeps) newDeps g1
      in updateCell ident (\<lambda>c. c\<lparr>dependencies := newDeps\<rparr>) g2)"


text \<open>
  \<open>Number(trimmed)\<close> on a non-empty trimmed string: a signed decimal literal with
  optional fraction and exponent, or an unsigned hexadecimal, octal or binary literal.
  \<open>Infinite\<close> is the literal \<open>Infinity\<close> with its optional sign; the value of any
  other literal is the real number it denotes.
\<close>

datatype jsnum = NaN | Num real | Infinite

definition radixDigit :: "char \<Rightarrow> nat" where
  "radixDigit c =
     (if isDigit c then code c - 48
      else if 97 \<le> code c \<and> code c \<le> 102 then code c - 87
      else if 65 \<le> code c \<and> code c \<le> 70 then code c - 55
      else 99)"

definition radixLiteral :: "nat \<Rightarrow> string \<Rightarrow> jsnum" where
  "radixLiteral base ds =
     (if ds \<noteq> [] \<and> list_all (\<lambda>c. radixDigit c < base) ds
      then Num (real (foldl (\<lambda>n c. base * n + radixDigit c) 0 ds))
      else NaN)"

definition signSplit :: "string \<Rightarrow> bool \<times> string" where
  "signSplit s =
     (case s of
        [] \<Rightarrow> (False, s)
      | c # cs \<Rightarrow>
          if c = CHR ''-'' then (True, cs)
          else if c = CHR ''+'' then (False, cs)
          else (False, s))"

definition exponentPart :: "string \<Rightarrow> int option" where
  "exponentPart s =
     (case s of
        [] \<Rightarrow> Some 0
      | c # cs \<Rightarrow>
          if c = CHR ''e'' \<or> c = CHR ''E'' then
            (case signSplit cs of
               (neg, ds) \<Rightarrow>
                 if ds \<noteq> [] \<and> list_all isDigit ds
                 then Some (if neg then - int (decimalNat ds) else int (decimalNat ds))
                 else None)
          else None)"

definition decimalLiteral :: "string \<Rightarrow> jsnum" where
  "decimalLiteral s =
     (case signSplit s of
        (neg, body) \<Rightarrow>
          if body = ''Infinity'' then Infinite
          else
            (let ip = takeWhile isDigit body;
                 r1 = dropWhile isDigit body;
                 dot = (r1 \<noteq> [] \<and> hd r1 = CHR ''.'');
                 fp = (if dot then takeWhile isDigit (tl r1) else []);
                 r2 = (if dot then dropWhile isDigit (tl r1) else r1);
                 m = real (decimalNat ip) + real (decimalNat fp) / 10 ^ length fp
             in if ip = [] \<and> fp = [] then NaN
                else (case exponentPart r2 of
                        None \<Rightarrow> NaN
                      | Some e \<Rightarrow>
                          Num ((if neg then - 1 else 1) *
                               (if e \<ge> 0 then m * 10 ^ nat e else m / 10 ^ nat (- e))))))"

definition jsNumber :: "string \<Rightarrow> jsnum" where
  "jsNumber s =
     (case s of
        c0 # c1 # rest \<Rightarrow>
          if c0 = CHR ''0'' \<and> (c1 = CHR ''x'' \<or> c1 = CHR ''X'') then radixLiteral 16 rest
          else if c0 = CHR ''0'' \<and> (c1 = CHR ''o'' \<or> c1 = CHR ''O'') then radixLiteral 8 rest
          else if c0 = CHR ''0'' \<and> (c1 = CHR ''b'' \<or> c1 = CHR ''B'') then radixLiteral 2 rest
          else decimalLiteral s
      | _ \<Rightarrow> decimalLiteral s)"

definition trim :: "string \<Rightarrow> string" where
  "trim s = rev (dropWhile isSpace (rev (dropWhile isSpace s)))"

text \<open>
  \<open>evaluateExpression(expr)\<close>: the context's \<open>getValue\<close> is
  \<open>(id) => this.getCell(id).value\<close>. \<open>parseDepth\<close> is the bound on the recursion
  depth given to the parser: five levels for each character, and six.
\<close>

definition graphContext :: "Graph \<Rightarrow> ((string \<times> Cell) list) EvalContext" where
  "graphContext g =
     \<lparr>getValue = (\<lambda>ident hw. case getCellIn ident hw of (c, h, cs) \<Rightarrow> (cellValue c, h, cs)),
      maxComponents = Some (configMaxComponents g)\<rparr>"

definition parseDepth :: "string \<Rightarrow> nat" where
  "parseDepth expr = 5 * length expr + 6"

definition evaluateExpression :: "Graph \<Rightarrow> string \<Rightarrow> addr outcome \<times> Graph" where
  "evaluateExpression g expr =
     (case evaluate (parseDepth expr) expr (graphContext g) (objects g, cells g) of
        (r, h, cs) \<Rightarrow> (r, g\<lparr>cells := cs, objects := h\<rparr>))"

text \<open>
  \<open>evaluateCell(cell)\<close>, for the cell \<open>ident\<close>. The result is \<open>None\<close> when the
  evaluation leaves the model (an \<open>Unmodelled\<close> function, an infinite number).
  A successful evaluation does not clear an earlier \<open>error\<close>.
\<close>

definition setValue :: "string \<Rightarrow> Dist \<Rightarrow> Graph \<Rightarrow> Graph" where
  "setValue ident d g =
     updateCell ident (\<lambda>c. c\<lparr>cellValue := length (objects g)\<rparr>)
       (g\<lparr>objects := objects g @ [d]\<rparr>)"

definition evaluateCell :: "Graph \<Rightarrow> string \<Rightarrow> Graph option" where
  "evaluateCell g ident =
     (let cell = theCell g ident in
      if status cell = Circular then Some g
      else if rawInput cell \<noteq> [] \<and> hd (rawInput cell) = CHR ''='' then
        (case evaluateExpression g (tl (rawInput cell)) of
           (Return a, g1) \<Rightarrow>
             Some (markDirty (cellId cell)
                     (updateCell ident (\<lambda>c. c\<lparr>cellValue := a, status := Ok\<rparr>) g1))
         | (Throw e, g1) \<Rightarrow>
             Some (markDirty (cellId cell)
                     (updateCell ident
                        (\<lambda>c. c\<lparr>status := Err, cellError := Some (messageOf e)\<rparr>) g1))
         | (Unmodelled, g1) \<Rightarrow> None
         | (OutOfFuel, g1) \<Rightarrow> None)
      else
        (case (if trim (rawInput cell) = [] then NaN else jsNumber (trim (rawInput cell))) of
           Num x \<Rightarrow>
             Some (markDirty (cellId cell)
                     (updateCell ident (\<lambda>c. c\<lparr>status := Ok\<rparr>)
                        (setValue ident (newDist [Atom x 1]) g)))
         | NaN \<Rightarrow>
             Some (markDirty (cellId cell)
                     (updateCell ident (\<lambda>c. c\<lparr>status := Ok\<rparr>)
                        (setValue ident (newDist []) g)))
         | Infinite \<Rightarrow> None))"


text \<open>
  \<open>recalculate(startId)\<close>, run to its end: the model has no suspension at the
  \<open>await\<close> after every fifth evaluation and no listener.

  \<open>buildOrderLoop\<close> is the \<open>while\<close> loop of \<open>buildOrder\<close>, with the state
  \<open>queue\<close>, \<open>dirty\<close>; \<open>visit\<close> is what it does to the cell it takes from the
  queue. It ends because a cell enters \<open>dirty\<close> once, and only the keys of the table
  and the entries of the \<open>dependents\<close> sets (\<open>reach\<close>) are ever queued.
\<close>

definition reach :: "Graph \<Rightarrow> string set" where
  "reach g = fst ` set (cells g) \<union> (\<Union>c \<in> snd ` set (cells g). set (dependents c))"

lemma finite_reach: "finite (reach g)"
  by (simp add: reach_def)

lemma theCell_dependents_reach: "set (dependents (theCell g k)) \<subseteq> reach g"
  by (auto simp: theCell_def reach_def newCell_def split: option.splits dest!: map_of_SomeD)

lemma reach_ensureCell: "reach (ensureCell g k) \<subseteq> insert k (reach g)"
  by (auto simp: ensureCell_def getCellIn_def reach_def newCell_def split: option.splits)

lemma reach_updateCell:
  "(\<And>c. dependents (f c) = dependents c) \<Longrightarrow> reach (updateCell k f g) = reach g"
  by (force simp: updateCell_def reach_def image_iff split: if_splits)

lemma reach_markDirty: "reach (markDirty k g) = reach g"
  by (simp add: markDirty_def reach_def)

definition visit :: "Graph \<Rightarrow> string \<Rightarrow> Graph" where
  "visit g cur =
     (let g1 = ensureCell g cur in
      if status (theCell g1 cur) \<noteq> Circular
      then markDirty (cellId (theCell g1 cur))
             (updateCell cur (\<lambda>c. c\<lparr>status := Evaluating\<rparr>) g1)
      else g1)"

lemma reach_visit: "reach (visit g cur) \<subseteq> insert cur (reach g)"
  using reach_ensureCell [of g cur]
  by (auto simp: visit_def Let_def reach_markDirty reach_updateCell)

function buildOrderLoop :: "Graph \<Rightarrow> string list \<Rightarrow> string list \<Rightarrow> Graph \<times> string list" where
  "buildOrderLoop g [] dirty = (g, dirty)"
| "buildOrderLoop g (cur # queue) dirty =
     (if cur \<in> set dirty then buildOrderLoop g queue dirty
      else buildOrderLoop (visit g cur)
             (queue @ dependents (theCell (visit g cur) cur)) (dirty @ [cur]))"
  by pat_completeness auto
termination
proof (relation "(\<lambda>(g, queue, dirty). card ((reach g \<union> set queue) - set dirty))
                   <*mlex*> measure (\<lambda>(g, queue, dirty). length queue)")
  show "wf ((\<lambda>(g, queue, dirty). card ((reach g \<union> set queue) - set dirty))
              <*mlex*> measure (\<lambda>(g, queue, dirty). length queue))"
    by (simp add: wf_mlex)
next
  fix g :: Graph and cur :: string and queue dirty :: "string list"
  assume "cur \<in> set dirty"
  have "card ((reach g \<union> set queue) - set dirty)
          \<le> card ((reach g \<union> set (cur # queue)) - set dirty)"
    by (rule card_mono) (auto simp: finite_reach)
  then show "((g, queue, dirty), g, cur # queue, dirty)
          \<in> (\<lambda>(g, queue, dirty). card ((reach g \<union> set queue) - set dirty))
              <*mlex*> measure (\<lambda>(g, queue, dirty). length queue)"
    by (auto intro!: mlex_leq)
next
  fix g :: Graph and cur :: string and queue dirty :: "string list"
  assume nd: "cur \<notin> set dirty"
  let ?g = "visit g cur"
  let ?A = "(reach g \<union> set (cur # queue)) - set dirty"
  let ?B = "(reach ?g \<union> set (queue @ dependents (theCell ?g cur))) - set (dirty @ [cur])"
  have "?B \<subseteq> ?A - {cur}"
    using reach_visit [of g cur] theCell_dependents_reach [of ?g cur] by auto
  moreover have "cur \<in> ?A" using nd by simp
  ultimately have "?B \<subset> ?A" by blast
  then have "card ?B < card ?A"
    by (intro psubset_card_mono) (auto simp: finite_reach)
  then show "((?g, queue @ dependents (theCell ?g cur), dirty @ [cur]), g, cur # queue, dirty)
          \<in> (\<lambda>(g, queue, dirty). card ((reach g \<union> set queue) - set dirty))
              <*mlex*> measure (\<lambda>(g, queue, dirty). length queue)"
    by (auto intro!: mlex_less)
qed

text \<open>
  The in-degree map: \<open>mapGet0\<close> is \<open>inDegree.get(k) || 0\<close>, \<open>mapSet\<close> is
  \<open>inDegree.set(k, v)\<close>. \<open>propagate\<close> is the body of the loop over
  \<open>cell.dependents\<close> after an evaluation, and \<open>execLoop\<close> the \<open>while\<close> loop over
  \<open>execQueue\<close>. It ends because each step takes one entry off the queue and a cell is
  queued only when its positive in-degree reaches 0 (\<open>pending\<close>).
\<close>

definition mapGet0 :: "(string \<times> int) list \<Rightarrow> string \<Rightarrow> int" where
  "mapGet0 m k = (case map_of m k of None \<Rightarrow> 0 | Some d \<Rightarrow> d)"

fun mapSet :: "string \<Rightarrow> int \<Rightarrow> (string \<times> int) list \<Rightarrow> (string \<times> int) list" where
  "mapSet k v [] = [(k, v)]"
| "mapSet k v ((k1, v1) # m) = (if k = k1 then (k, v) # m else (k1, v1) # mapSet k v m)"

definition propagate ::
  "string list \<Rightarrow> string \<Rightarrow> (string \<times> int) list \<times> string list \<Rightarrow>
   (string \<times> int) list \<times> string list" where
  "propagate dirtySet depId st =
     (case st of (inDegree, execQueue) \<Rightarrow>
        if depId \<in> set dirtySet then
          (mapSet depId (mapGet0 inDegree depId - 1) inDegree,
           if mapGet0 inDegree depId - 1 = 0 then execQueue @ [depId] else execQueue)
        else (inDegree, execQueue))"

definition pending :: "(string \<times> int) list \<times> string list \<Rightarrow> nat" where
  "pending st = sum_list (map (\<lambda>(k, d). nat d) (fst st)) + length (snd st)"

lemma sum_mapSet:
  "sum_list (map (\<lambda>(k, d). nat d) (mapSet k v m)) + nat (mapGet0 m k)
   = sum_list (map (\<lambda>(k, d). nat d) m) + nat v"
  by (induction m) (auto simp: mapGet0_def)

lemma pending_propagate: "pending (propagate dirtySet depId st) \<le> pending st"
proof (cases st)
  case (Pair m q)
  show ?thesis
    using sum_mapSet [of depId "mapGet0 m depId - 1" m]
    by (auto simp: Pair propagate_def pending_def)
qed

lemma pending_fold: "pending (fold (propagate dirtySet) deps st) \<le> pending st"
proof (induction deps arbitrary: st)
  case Nil
  show ?case by simp
next
  case (Cons d deps)
  have "pending (fold (propagate dirtySet) deps (propagate dirtySet d st))
          \<le> pending (propagate dirtySet d st)"
    by (rule Cons.IH)
  also have "\<dots> \<le> pending st" by (rule pending_propagate)
  finally show ?case by simp
qed

function execLoop ::
  "Graph \<Rightarrow> string list \<Rightarrow> (string \<times> int) list \<Rightarrow> string list \<Rightarrow> nat \<Rightarrow>
   (Graph \<times> (string \<times> int) list \<times> nat) option" where
  "execLoop g dirtySet inDegree [] processedCount = Some (g, inDegree, processedCount)"
| "execLoop g dirtySet inDegree (currId # execQueue) processedCount =
     (case evaluateCell (ensureCell g currId) currId of
        None \<Rightarrow> None
      | Some g1 \<Rightarrow>
          execLoop g1 dirtySet
            (fst (fold (propagate dirtySet) (dependents (theCell g1 currId))
                    (inDegree, execQueue)))
            (snd (fold (propagate dirtySet) (dependents (theCell g1 currId))
                    (inDegree, execQueue)))
            (processedCount + 1))"
  by pat_completeness auto
termination
proof (relation "measure (\<lambda>(g, dirtySet, inDegree, execQueue, processedCount).
                            pending (inDegree, execQueue))")
  show "wf (measure (\<lambda>(g, dirtySet, inDegree, execQueue, processedCount).
                       pending (inDegree, execQueue)))"
    by simp
next
  fix g g1 :: Graph and dirtySet execQueue :: "string list" and currId :: string
    and inDegree :: "(string \<times> int) list" and processedCount :: nat
  let ?st = "fold (propagate dirtySet) (dependents (theCell g1 currId)) (inDegree, execQueue)"
  have "pending ?st \<le> pending (inDegree, execQueue)" by (rule pending_fold)
  also have "\<dots> < pending (inDegree, currId # execQueue)" by (simp add: pending_def)
  finally show "((g1, dirtySet, fst ?st, snd ?st, processedCount + 1),
                 g, dirtySet, inDegree, currId # execQueue, processedCount)
          \<in> measure (\<lambda>(g, dirtySet, inDegree, execQueue, processedCount).
                        pending (inDegree, execQueue))"
    by simp
qed

text \<open>The in-degree map of the dirty subgraph, and the cells marked circular at the end.\<close>

definition countStep :: "string list \<Rightarrow> string \<Rightarrow> (string \<times> int) list \<Rightarrow> (string \<times> int) list" where
  "countStep dirtySet dep inDegree =
     (if dep \<in> set dirtySet then mapSet dep (mapGet0 inDegree dep + 1) inDegree
      else inDegree)"

definition initInDegree :: "Graph \<Rightarrow> string list \<Rightarrow> (string \<times> int) list" where
  "initInDegree g dirtySet =
     fold (\<lambda>ident inDegree. fold (countStep dirtySet) (dependents (theCell g ident)) inDegree)
       dirtySet
       (fold (\<lambda>ident inDegree. mapSet ident 0 inDegree) dirtySet [])"

definition markCircular :: "string \<times> int \<Rightarrow> Graph \<Rightarrow> Graph" where
  "markCircular entry g =
     (case entry of (ident, deg) \<Rightarrow>
        if deg > 0
        then markDirty ident (updateCell ident (\<lambda>c. c\<lparr>status := Circular\<rparr>) (ensureCell g ident))
        else g)"

definition recalculate :: "Graph \<Rightarrow> string \<Rightarrow> Graph option" where
  "recalculate g startId =
     (case buildOrderLoop g [startId] [] of
        (g1, dirtySet) \<Rightarrow>
          (let inDegree = initInDegree g1 dirtySet;
               execQueue = map fst (filter (\<lambda>(ident, deg). deg = 0) inDegree)
           in case execLoop g1 dirtySet inDegree execQueue 0 of
                None \<Rightarrow> None
              | Some (g2, inDegree2, processedCount) \<Rightarrow>
                  Some (if processedCount < length dirtySet
                        then fold markCircular inDegree2 g2
                        else g2)))"

definition setCellInput :: "Graph \<Rightarrow> string \<Rightarrow> string \<Rightarrow> Graph option" where
  "setCellInput g ident input =
     (let g0 = ensureCell g ident in
      if rawInput (theCell g0 ident) = input then Some g0
      else recalculate
             (updateDependencies
                (markDirty ident (updateCell ident (\<lambda>c. c\<lparr>rawInput := input\<rparr>) g0))
                ident (detectDependencies input))
             ident)"

text \<open>\<open>new Graph()\<close>\<close>

definition newGraph :: Graph where
  "newGraph = \<lparr>cells = [], dirtyTrack = [], configMaxComponents = 200, objects = []\<rparr>"


section \<open>The context of the evaluator's tests\<close>

text \<open>
  \<open>mockCtx\<close> of \<open>geom_sum.test.ts\<close>: \<open>getValue\<close> returns \<open>new Dist([])\<close> for every
  cell, no \<open>maxComponents\<close>.
\<close>

definition mockCtx :: "unit EvalContext" where
  "mockCtx = \<lparr>getValue = (\<lambda>ident (h, w). (length h, h @ [newDist []], w)),
              maxComponents = None\<rparr>"


section \<open>The mixture as the specification words it\<close>

text \<open>
  The specification's reading of \<open>MIX(p, A, B)\<close>, to be compared with \<open>dispatch\<close>:
  the masses of \<open>A\<close> times \<open>1 - p\<close>, the masses of \<open>B\<close> times \<open>p\<close>, sorted.
\<close>

definition specMix :: "real \<Rightarrow> Dist \<Rightarrow> Dist \<Rightarrow> Dist" where
  "specMix p A B = newDist (map (scaleMass (1 - p)) A @ map (scaleMass p) B)"


section \<open>Properties\<close>

subsection \<open>Evaluation rules\<close>

lemmas reduce_eval = reduce_def normalize_def totalMass_def hasBoundaryBetween_def MAX_VALUE_def
  splice2_def mergeComponents_def newDist_def splitAtBoundaries_def mergeValleys_def
  valleyStep_def

lemmas store_eval = deref_def newObj_def throwError_def andThen_def withScalar_def
  withComps_def optScalar_def reduceDist_def checkSafety_def safetyLimit_def

lemmas name_eval = toUpperCase_def toUpperChar_def isLower_def code_def

lemmas tok_eval = isSpace_def isNumChar_def isIdStart_def isIdChar_def isDigit_def isUpper_def
  isLower_def code_def

lemmas parse_eval = evaluate_def bindP_def liftH_def expect_def callGetValue_def peekType_def
  peekValue_def consume_def parseFloat_def decimalNat_def digitVal_def mulStep_def divStep_def
  wrapError_def mockCtx_def

lemmas num_simps =
  parseExpression.simps(2)[of "pred_numeral v", folded numeral_eq_Suc]
  exprLoop.simps(2)[of "pred_numeral v", folded numeral_eq_Suc]
  parseTerm.simps(2)[of "pred_numeral v", folded numeral_eq_Suc]
  termLoop.simps(2)[of "pred_numeral v", folded numeral_eq_Suc]
  parseFactor.simps(2)[of "pred_numeral v", folded numeral_eq_Suc]
  parseFunctionCall.simps(2)[of "pred_numeral v", folded numeral_eq_Suc]
  parseArgs.simps(2)[of "pred_numeral v", folded numeral_eq_Suc]
  tryParseArg.simps(2)[of "pred_numeral v", folded numeral_eq_Suc] for v

lemmas call_eval = parse_eval tok_eval num_simps store_eval name_eval dispatch_def
  getScalar_def isScalar_def newDist_def

lemmas graph_eval = setCellInput_def recalculate_def newGraph_def ensureCell_def getCellIn_def
  theCell_def updateCell_def markDirty_def setAdd_def setDelete_def newCell_def
  detectDependencies_def isRef_def updateDependencies_def removeOldDep_def addNewDep_def
  visit_def initInDegree_def countStep_def mapGet0_def propagate_def markCircular_def
  evaluateCell_def evaluateExpression_def graphContext_def parseDepth_def setValue_def
  trim_def jsNumber_def decimalLiteral_def signSplit_def exponentPart_def Let_def

lemmas sheet_eval = graph_eval call_eval reduce_eval

lemmas geom_eval = geomLoop.simps(2)[of "pred_numeral v", folded numeral_eq_Suc] for v



lemma getScalar_atom: "isScalar [Atom x p] \<Longrightarrow> getScalar [Atom x p] = Inr x"
  by (simp add: getScalar_def)

subsection \<open>What the parser leaves unchanged\<close>

lemma bindP_Return:
  "bindP m f = (Return r, s') \<longleftrightarrow> (\<exists>a s1. m = (Return a, s1) \<and> f a s1 = (Return r, s'))"
  by (cases m; cases "fst m") (auto simp: bindP_def)

lemma liftH_frame:
  "liftH m st = (r, st') \<Longrightarrow>
   localMaxComponents st' = localMaxComponents st \<and> tokens st' = tokens st \<and> world st' = world st"
  by (auto simp: liftH_def split: prod.splits)

lemma expect_frame:
  "expect ty st = (r, st') \<Longrightarrow>
   localMaxComponents st' = localMaxComponents st \<and> store st' = store st \<and> world st' = world st"
  by (auto simp: expect_def split: list.splits if_splits)

lemma callGetValue_frame:
  "callGetValue ctx ident st = (r, st') \<Longrightarrow> localMaxComponents st' = localMaxComponents st \<and> tokens st' = tokens st"
  by (auto simp: callGetValue_def split: prod.splits)

lemma getValues_frame:
  "getValues ctx cs args st = (r, st') \<Longrightarrow> localMaxComponents st' = localMaxComponents st \<and> tokens st' = tokens st"
  by (induction cs arbitrary: args st) (auto split: prod.splits)

lemma consume_frame [simp]:
  "localMaxComponents (consume st) = localMaxComponents st" "store (consume st) = store st" "world (consume st) = world st"
  by (simp_all add: consume_def)

lemma parser_keeps_override:
  "(\<forall>ctx st r st'. parseExpression n ctx st = (Return r, st') \<longrightarrow> localMaxComponents st' = localMaxComponents (st :: 'e Parser))
 \<and> (\<forall>ctx l st r st'. exprLoop n ctx l st = (Return r, st') \<longrightarrow> localMaxComponents st' = localMaxComponents (st :: 'e Parser))
 \<and> (\<forall>ctx st r st'. parseTerm n ctx st = (Return r, st') \<longrightarrow> localMaxComponents st' = localMaxComponents (st :: 'e Parser))
 \<and> (\<forall>ctx l st r st'. termLoop n ctx l st = (Return r, st') \<longrightarrow> localMaxComponents st' = localMaxComponents (st :: 'e Parser))
 \<and> (\<forall>ctx st r st'. parseFactor n ctx st = (Return r, st') \<longrightarrow> localMaxComponents st' = localMaxComponents (st :: 'e Parser))
 \<and> (\<forall>ctx name st r st'. parseFunctionCall n ctx name st = (Return r, st') \<longrightarrow> localMaxComponents st' = localMaxComponents (st :: 'e Parser))
 \<and> (\<forall>ctx args st r st'. parseArgs n ctx args st = (Return r, st') \<longrightarrow> localMaxComponents st' = localMaxComponents (st :: 'e Parser))
 \<and> (\<forall>ctx args st r st'. tryParseArg n ctx args st = (Return r, st') \<longrightarrow> localMaxComponents st' = localMaxComponents (st :: 'e Parser))"
proof (induction n)
  case 0
  show ?case by simp
next
  case (Suc n)
  note IH = Suc.IH
  note IHe = IH[THEN conjunct1, rule_format]
  note IHel = IH[THEN conjunct2, THEN conjunct1, rule_format]
  note IHt = IH[THEN conjunct2, THEN conjunct2, THEN conjunct1, rule_format]
  note IHtl = IH[THEN conjunct2, THEN conjunct2, THEN conjunct2, THEN conjunct1, rule_format]
  note IHf = IH[THEN conjunct2, THEN conjunct2, THEN conjunct2, THEN conjunct2, THEN conjunct1, rule_format]
  note IHc = IH[THEN conjunct2, THEN conjunct2, THEN conjunct2, THEN conjunct2, THEN conjunct2, THEN conjunct1, rule_format]
  note IHa = IH[THEN conjunct2, THEN conjunct2, THEN conjunct2, THEN conjunct2, THEN conjunct2, THEN conjunct2, THEN conjunct1, rule_format]
  note IHta = IH[THEN conjunct2, THEN conjunct2, THEN conjunct2, THEN conjunct2, THEN conjunct2, THEN conjunct2, THEN conjunct2, rule_format]
  have e: "\<And>ctx st r st'. parseExpression (Suc n) ctx st = (Return r, st') \<Longrightarrow> localMaxComponents st' = localMaxComponents (st :: 'e Parser)"
    using IHt IHel by (auto simp: bindP_Return)
  have el: "\<And>ctx l st r st'. exprLoop (Suc n) ctx l st = (Return r, st') \<Longrightarrow> localMaxComponents st' = localMaxComponents (st :: 'e Parser)"
    using IHt IHel by (fastforce simp: bindP_Return split: if_splits dest!: liftH_frame)
  have t: "\<And>ctx st r st'. parseTerm (Suc n) ctx st = (Return r, st') \<Longrightarrow> localMaxComponents st' = localMaxComponents (st :: 'e Parser)"
    using IHf IHtl by (auto simp: bindP_Return)
  have tl: "\<And>ctx l st r st'. termLoop (Suc n) ctx l st = (Return r, st') \<Longrightarrow> localMaxComponents st' = localMaxComponents (st :: 'e Parser)"
    using IHf IHtl by (fastforce simp: bindP_Return split: if_splits dest!: liftH_frame)
  have f: "\<And>ctx st r st'. parseFactor (Suc n) ctx st = (Return r, st') \<Longrightarrow> localMaxComponents st' = localMaxComponents (st :: 'e Parser)"
    using IHf IHe IHc by (fastforce simp: bindP_Return split: if_splits option.splits
        dest!: liftH_frame expect_frame callGetValue_frame)
  have c: "localMaxComponents st' = localMaxComponents st"
    if h: "parseFunctionCall (Suc n) ctx name st = (Return r, st')"
    for ctx name r st' and st :: "'e Parser"
  proof -
    from h obtain v0 st1 where 1: "expect LPAREN st = (Return v0, st1)"
      and 2: "(if peekType st1 \<noteq> Some RPAREN then
         (if toUpperCase name = ''CONFIG'' then
            bindP (parseExpression n ctx st1) (\<lambda>limitDist st2.
              (case getScalar (deref (store st2) limitDist) of
                 Inl e \<Rightarrow> (Throw e, st2)
               | Inr limit \<Rightarrow>
                   bindP (expect COMMA st2) (\<lambda>v1 st3.
                     bindP (parseExpression n ctx (st3\<lparr>localMaxComponents := Some limit\<rparr>))
                       (\<lambda>result st5.
                          bindP (expect RPAREN
                                   (st5\<lparr>localMaxComponents := localMaxComponents st3\<rparr>))
                            (\<lambda>v2 st7. (Return result, st7))))))
          else
            bindP (parseArgs n ctx [] st1) (\<lambda>args st2.
              bindP (expect RPAREN st2) (\<lambda>v1 st3.
                liftH (dispatch (localMaxComponents st3) (maxComponents ctx) name args) st3)))
       else
         bindP (expect RPAREN st1) (\<lambda>v1 st3.
           liftH (dispatch (localMaxComponents st3) (maxComponents ctx) name []) st3))
       = (Return r, st')"
      by (auto simp: bindP_Return)
    from 1 have s1: "localMaxComponents st1 = localMaxComponents st" by (auto dest: expect_frame)
    consider (noargs) "\<not> peekType st1 \<noteq> Some RPAREN"
      | (config) "peekType st1 \<noteq> Some RPAREN" "toUpperCase name = ''CONFIG''"
      | (args) "peekType st1 \<noteq> Some RPAREN" "toUpperCase name \<noteq> ''CONFIG''"
      by blast
    then have "localMaxComponents st' = localMaxComponents st1"
    proof cases
      case noargs
      with 2 show ?thesis
        by (auto simp: bindP_Return dest!: expect_frame liftH_frame)
    next
      case config
      with 2 obtain limitDist st2 where
        a: "parseExpression n ctx st1 = (Return limitDist, st2)"
        and a2: "(case getScalar (deref (store st2) limitDist) of
                 Inl e \<Rightarrow> (Throw e, st2)
               | Inr limit \<Rightarrow>
                   bindP (expect COMMA st2) (\<lambda>v1 st3.
                     bindP (parseExpression n ctx (st3\<lparr>localMaxComponents := Some limit\<rparr>))
                       (\<lambda>result st5.
                          bindP (expect RPAREN
                                   (st5\<lparr>localMaxComponents := localMaxComponents st3\<rparr>))
                            (\<lambda>v2 st7. (Return result, st7))))) = (Return r, st')"
        by (auto simp: bindP_Return)
      from a2 obtain v1 st3 st5 v2 where
        b: "expect COMMA st2 = (Return v1, st3)"
        and d: "expect RPAREN (st5\<lparr>localMaxComponents := localMaxComponents st3\<rparr>) = (Return v2, st')"
        by (cases "getScalar (deref (store st2) limitDist)") (auto simp: bindP_Return)
      from a have "localMaxComponents st2 = localMaxComponents st1" by (rule IHe)
      moreover from b have "localMaxComponents st3 = localMaxComponents st2" by (auto dest: expect_frame)
      moreover from d have "localMaxComponents st' = localMaxComponents st3" by (auto dest: expect_frame)
      ultimately show ?thesis by simp
    next
      case args
      with 2 obtain as st2 v1 st3 where
        a: "parseArgs n ctx [] st1 = (Return as, st2)"
        and b: "expect RPAREN st2 = (Return v1, st3)"
        and d: "liftH (dispatch (localMaxComponents st3) (maxComponents ctx) name as) st3 = (Return r, st')"
        by (auto simp: bindP_Return)
      from a have "localMaxComponents st2 = localMaxComponents st1" by (rule IHa)
      moreover from b have "localMaxComponents st3 = localMaxComponents st2" by (auto dest: expect_frame)
      moreover from d have "localMaxComponents st' = localMaxComponents st3" by (auto dest: liftH_frame)
      ultimately show ?thesis by simp
    qed
    with s1 show ?thesis by simp
  qed
  have a: "localMaxComponents st' = localMaxComponents st"
    if h: "parseArgs (Suc n) ctx args st = (Return r, st')"
    for ctx args r st' and st :: "'e Parser"
  proof -
    from h obtain a1 s1 where 1: "tryParseArg n ctx args st = (Return a1, s1)"
      and 2: "(if peekType s1 = Some COMMA then parseArgs n ctx a1 (consume s1)
               else (Return a1, s1)) = (Return r, st')"
      by (auto simp: bindP_Return)
    from 1 have "localMaxComponents s1 = localMaxComponents st" by (rule IHta)
    moreover from 2 have "localMaxComponents st' = localMaxComponents s1"
      by (auto split: if_splits dest: IHa)
    ultimately show ?thesis by simp
  qed
  have ta: "localMaxComponents st' = localMaxComponents st"
    if h: "tryParseArg (Suc n) ctx args st = (Return r, st')"
    for ctx args r st' and st :: "'e Parser"
  proof (cases "peekType st = Some ID \<and> peekType (consume st) = Some COLON")
    case True
    with h obtain endId st1 where
      1: "expect ID (consume (consume st)) = (Return endId, st1)"
      and r1: "(case expandRange (peekValue st) endId of
             Inl e \<Rightarrow> (Throw e, st1)
           | Inr cs \<Rightarrow> getValues ctx cs args st1) = (Return r, st')"
      by (auto simp: bindP_Return)
    from r1 obtain cs where 2: "getValues ctx cs args st1 = (Return r, st')"
      by (cases "expandRange (peekValue st) endId") auto
    from 1 have "localMaxComponents st1 = localMaxComponents st" by (auto dest: expect_frame)
    moreover from 2 have "localMaxComponents st' = localMaxComponents st1" by (auto dest: getValues_frame)
    ultimately show ?thesis by simp
  next
    case False
    with h show ?thesis by (auto simp: bindP_Return dest: IHe)
  qed
  from e el t tl f c a ta show ?case by blast
qed


lemmas parseExpression_keeps_override =
  parser_keeps_override [THEN conjunct1, rule_format]


subsection \<open>C2: the parameters of the safety check's reduction\<close>

text \<open>
  C2, as stated: above the limit, \<open>checkSafety\<close> calls the reducer with
  \<open>targetN = limit\<close>, impact center 0 and boundaries \<open>{0}\<close>. It does not: with the
  local limit 1, the two components \<open>Bin [-1, 1]\<close> (mass 1/2) and \<open>Atom 3\<close>
  (mass 1/2) are merged by \<open>checkSafety\<close> into the one bin \<open>[-1, 3]\<close>, which spans
  0, while the reducer with boundaries \<open>{0}\<close> returns the two bins \<open>[-1, 0]\<close> and
  \<open>[0, 3]\<close>.
\<close>

theorem checkSafety_boundaries_counterexample:
  "checkSafety (Some 1) None 0 [[Bin (- 1) 1 (1 / 2) 0 Uniform, Atom 3 (1 / 2)]] =
     (Return 1, [[Bin (- 1) 1 (1 / 2) 0 Uniform, Atom 3 (1 / 2)],
                 [Bin (- 1) 3 1 (3 / 2) Uniform]])
   \<and> reduceDist 0
       \<lparr>targetN = 1, impactCenter = Some 0, impactWidthWeight = None, tau = None,
        boundaries = Some [0]\<rparr>
       [[Bin (- 1) 1 (1 / 2) 0 Uniform, Atom 3 (1 / 2)]] =
     (Return 1, [[Bin (- 1) 1 (1 / 2) 0 Uniform, Atom 3 (1 / 2)],
                 [Bin (- 1) 0 (1 / 4) (- 1 / 2) Uniform, Bin 0 3 (3 / 4) (13 / 6) Uniform]])"
  by (simp add: store_eval reduce_eval)

text \<open>
  C2, amended: above the effective limit (local override, else context limit, else 200),
  \<open>checkSafety\<close> calls the reducer with \<open>targetN = limit\<close> and nothing else, which
  is the reduction with impact center 0, width weight 0, no valley threshold and no
  boundary at all; at or below the limit it returns its argument.
\<close>

theorem checkSafety_reduce_params:
  "safetyLimit lm cm =
     (case lm of Some l \<Rightarrow> l | None \<Rightarrow> (case cm of Some m \<Rightarrow> m | None \<Rightarrow> 200))
   \<and> (real (length (deref h d)) > safetyLimit lm cm \<longrightarrow>
        checkSafety lm cm d h =
          reduceDist d
            \<lparr>targetN = safetyLimit lm cm, impactCenter = Some 0, impactWidthWeight = Some 0,
             tau = None, boundaries = Some []\<rparr> h)
   \<and> (\<not> real (length (deref h d)) > safetyLimit lm cm \<longrightarrow>
        checkSafety lm cm d h = (Return d, h))"
  by (simp add: safetyLimit_def checkSafety_def reduceDist_def reduce_def Let_def
      cong: sum.case_cong if_cong)

theorem checkSafety_reduce_params_witness:
  "real (length (deref [[Atom 1 (1 / 2), Atom 2 (1 / 2)]] 0)) > safetyLimit (Some 1) None
   \<and> checkSafety (Some 1) None 0 [[Atom 1 (1 / 2), Atom 2 (1 / 2)]] =
       reduceDist 0
         \<lparr>targetN = safetyLimit (Some 1) None, impactCenter = Some 0,
          impactWidthWeight = Some 0, tau = None, boundaries = Some []\<rparr>
         [[Atom 1 (1 / 2), Atom 2 (1 / 2)]]
   \<and> \<not> real (length (deref [[Atom 1 1]] 0)) > safetyLimit None None
   \<and> checkSafety None None 0 [[Atom 1 1]] = (Return 0, [[Atom 1 1]])"
proof -
  have a: "real (length (deref [[Atom 1 (1 / 2), Atom 2 (1 / 2)]] 0)) > safetyLimit (Some 1) None"
    by (simp add: deref_def safetyLimit_def)
  have b: "\<not> real (length (deref [[Atom 1 1]] 0)) > safetyLimit None None"
    by (simp add: deref_def safetyLimit_def)
  from a b
    checkSafety_reduce_params [of "Some 1" None "[[Atom 1 (1 / 2), Atom 2 (1 / 2)]]" 0]
    checkSafety_reduce_params [of None None "[[Atom 1 1]]" 0]
  show ?thesis by blast
qed

subsection \<open>C3: merged bins and boundaries\<close>

text \<open>
  C3 (the reducer never returns a bin with a boundary strictly inside) at the
  distribution \<open>Bin [-3, 5]\<close> (mass 1/2), \<open>Atom -1\<close> (mass 1/2), the value of
  \<open>MIX(0.5, CONST(-1), UNIFORM(-3, 5))\<close>, reduced as \<open>REDUCE(..., 2)\<close> does it:
  target 2, center 0, threshold 0.01, boundaries \<open>{0}\<close>. The split at 0 leaves the
  list \<open>[-3, 0], [0, 5], Atom -1\<close>, no longer ordered by start; for the pair
  \<open>[0, 5], Atom -1\<close> no boundary lies between end 5 and start -1, the pair is
  merged, and the result holds the bin \<open>[-1, 5]\<close> with 0 inside.
\<close>

theorem reduce_bin_across_boundary:
  "reduce [Bin (- 3) 5 (1 / 2) 1 Uniform, Atom (- 1) (1 / 2)]
     \<lparr>targetN = 2, impactCenter = Some 0, impactWidthWeight = Some 0,
      tau = Some (1 / 100), boundaries = Some [0]\<rparr> =
   Inr [Bin (- 3) 0 (3 / 16) (- 3 / 2) Uniform, Bin (- 1) 5 (13 / 16) (9 / 26) Uniform]"
  by (simp add: reduce_eval)

subsection \<open>C8: the width of a merged bin\<close>

text \<open>
  C8 (every bin has \<open>a < b\<close>, merged bins included) at two atoms of mass 1/2 at
  the same position 1, reduced to one component: the merged bin is \<open>[1, 1]\<close>.
\<close>

theorem reduce_zero_width_bin:
  "reduce [Atom 1 (1 / 2), Atom 1 (1 / 2)]
     \<lparr>targetN = 1, impactCenter = None, impactWidthWeight = None, tau = None,
      boundaries = None\<rparr> =
   Inr [Bin 1 1 1 1 Uniform]"
  by (simp add: reduce_eval)

subsection \<open>C6: the component limit around CONFIG\<close>




subsection \<open>C10: scalar arguments\<close>




subsection \<open>C1: the weights of MIX\<close>

lemma sum_list_insort_key:
  "sum_list (map f (insort_key k x xs)) = (f x :: real) + sum_list (map f xs)"
  by (induction xs) simp_all

lemma sum_list_sort_key: "sum_list (map f (sort_key k xs)) = (sum_list (map f xs) :: real)"
  by (induction xs) (simp_all add: sum_list_insort_key)

lemma count_list_insort_key: "count_list (insort_key k x xs) c = count_list (x # xs) c"
  by (induction xs) auto

lemma count_list_sort_key: "count_list (sort_key k xs) c = count_list xs c"
  by (induction xs) (simp_all add: count_list_insort_key)

lemma count_list_app: "count_list (xs @ ys) c = count_list xs c + count_list ys c"
  by (induction xs) simp_all

lemma massOf_scaleMass: "massOf (scaleMass k c) = massOf c * k"
  by (cases c) simp_all

lemma totalMass_scaleMass: "totalMass (map (scaleMass k) d) = k * totalMass d"
  by (induction d) (simp_all add: totalMass_def massOf_scaleMass algebra_simps)

lemma totalMass_newDist: "totalMass (newDist d) = totalMass d"
  by (simp add: totalMass_def newDist_def sum_list_sort_key)

lemma totalMass_append: "totalMass (xs @ ys) = totalMass xs + totalMass ys"
  by (simp add: totalMass_def)

text \<open>
  C1, as stated: \<open>MIX(p, A, B)\<close> is \<open>(1 - p) A + p B\<close>, and
  \<open>MIX(0.1, CONST(0), CONST(100))\<close> follows that rule. The formula evaluates to the
  atom 0 with mass 1/10 and the atom 100 with mass 9/10 (the sixth object of the store;
  the first five are the values of the literals and of the two \<open>CONST\<close>), while the rule
  gives the atom 0 the mass 9/10 and the atom 100 the mass 1/10.
\<close>

theorem mix_weights_swapped:
  "evaluate 20 ''MIX(0.1, CONST(0), CONST(100))'' mockCtx ([], ()) =
     (Return 5,
      [[Atom (1 / 10) 1], [Atom 0 1], [Atom 0 1], [Atom 100 1], [Atom 100 1],
       [Atom 0 (1 / 10), Atom 100 (9 / 10)]], ())
   \<and> specMix (1 / 10) [Atom 0 1] [Atom 100 1] = [Atom 0 (9 / 10), Atom 100 (1 / 10)]"
  by (simp add: call_eval Dist_mix_def specMix_def)

text \<open>
  C1, amended: with a scalar \<open>p\<close> as first argument, \<open>MIX(p, A, B)\<close> is \<open>p A + (1 - p) B\<close>:
  the components of \<open>A\<close> with their masses times \<open>p\<close> and the components of \<open>B\<close> with
  their masses times \<open>1 - p\<close>, each as often as it occurs, sorted by position, of total
  mass \<open>p\<close> times that of \<open>A\<close> plus \<open>1 - p\<close> times that of \<open>B\<close>. This distribution is
  passed to the safety check and is the result when it has no more components than the
  limit. \<open>p\<close> is not required to lie in \<open>[0, 1]\<close>.
\<close>

theorem mix_weights:
  "getScalar (deref h a0) = Inr p \<Longrightarrow>
   (let A = deref h a1; B = deref h a2; R = Dist_mix B A p in
      dispatch lm cm ''MIX'' [a0, a1, a2] h = andThen (newObj R) (checkSafety lm cm) h
    \<and> (real (length A + length B) \<le> safetyLimit lm cm \<longrightarrow>
         dispatch lm cm ''MIX'' [a0, a1, a2] h = (Return (length h), h @ [R]))
    \<and> count_list R c =
        count_list (map (scaleMass p) A) c + count_list (map (scaleMass (1 - p)) B) c
    \<and> sorted (map getKey R)
    \<and> totalMass R = p * totalMass A + (1 - p) * totalMass B)"
proof -
  assume p: "getScalar (deref h a0) = Inr p"
  define A where "A = deref h a1"
  define B where "B = deref h a2"
  define R where "R = Dist_mix B A p"
  have 1: "dispatch lm cm ''MIX'' [a0, a1, a2] h = andThen (newObj R) (checkSafety lm cm) h"
    using p by (simp add: dispatch_def name_eval withScalar_def R_def A_def B_def)
  have len: "length R = length A + length B"
    by (simp add: R_def Dist_mix_def newDist_def)
  have 2: "dispatch lm cm ''MIX'' [a0, a1, a2] h = (Return (length h), h @ [R])"
    if "real (length A + length B) \<le> safetyLimit lm cm"
    using that len
    by (simp add: 1 andThen_def newObj_def checkSafety_def deref_def nth_append)
  have 3: "count_list R c =
        count_list (map (scaleMass p) A) c + count_list (map (scaleMass (1 - p)) B) c"
    by (simp add: R_def Dist_mix_def newDist_def count_list_sort_key count_list_app)
  have 4: "sorted (map getKey R)"
    by (simp add: R_def Dist_mix_def newDist_def)
  have 5: "totalMass R = p * totalMass A + (1 - p) * totalMass B"
    by (simp add: R_def Dist_mix_def totalMass_newDist totalMass_append totalMass_scaleMass)
  from 1 2 3 4 5 show ?thesis
    unfolding Let_def A_def [symmetric] B_def [symmetric] R_def [symmetric] by blast
qed

theorem mix_weights_witness:
  "getScalar
     (deref [[Atom (1 / 10) 1], [Atom 0 1], [Atom 0 1], [Atom 100 1], [Atom 100 1]] 0) =
     Inr (1 / 10)
   \<and> real (length (deref [[Atom (1 / 10) 1], [Atom 0 1], [Atom 0 1], [Atom 100 1],
                           [Atom 100 1]] 2)
           + length (deref [[Atom (1 / 10) 1], [Atom 0 1], [Atom 0 1], [Atom 100 1],
                            [Atom 100 1]] 4))
       \<le> safetyLimit None None
   \<and> dispatch None None ''MIX'' [0, 2, 4]
       [[Atom (1 / 10) 1], [Atom 0 1], [Atom 0 1], [Atom 100 1], [Atom 100 1]] =
     (Return 5,
      [[Atom (1 / 10) 1], [Atom 0 1], [Atom 0 1], [Atom 100 1], [Atom 100 1],
       [Atom 0 (1 / 10), Atom 100 (9 / 10)]])"
proof -
  let ?h = "[[Atom (1 / 10) 1], [Atom 0 1], [Atom 0 1], [Atom 100 1], [Atom 100 1]]"
  have a: "getScalar (deref ?h 0) = Inr (1 / 10)"
    by (simp add: deref_def getScalar_def isScalar_def)
  have b: "real (length (deref ?h 2) + length (deref ?h 4)) \<le> safetyLimit None None"
    by (simp add: deref_def safetyLimit_def)
  have c: "Dist_mix (deref ?h 4) (deref ?h 2) (1 / 10) = [Atom 0 (1 / 10), Atom 100 (9 / 10)]"
    by (simp add: deref_def Dist_mix_def newDist_def)
  from mix_weights [OF a, of 2 4 None None] b
  have "dispatch None None ''MIX'' [0, 2, 4] ?h =
          (Return (length ?h), ?h @ [Dist_mix (deref ?h 4) (deref ?h 2) (1 / 10)])"
    unfolding Let_def by blast
  with a b c show ?thesis
    by simp
qed

subsection \<open>C5: two cells that refer to each other\<close>


subsection \<open>C4: a cell whose input is not a number\<close>








subsection \<open>C7: the mean of a geometric sum\<close>

text \<open>
  C7, as stated: the mean of \<open>ADD(CONST(1), GEOM_SUM(CONST(1500), 0.81))\<close> lies in
  \<open>[7800, 8000]\<close>. The formula evaluates to 44 atoms whose mean lies between 6388 and
  6389: the geometric sum contributes a little less than \<open>1500 * 0.81 / 0.19\<close>, and
  \<open>CONST(1)\<close> adds 1.
\<close>

theorem geom_sum_plus_one_mean:
  "(case evaluate 30 ''ADD(CONST(1), GEOM_SUM(CONST(1500), 0.81))'' mockCtx ([], ()) of
      (Return a, h, w) \<Rightarrow>
        length (deref h a) = 44
        \<and> 6388 < Dist_mean (deref h a) \<and> Dist_mean (deref h a) < 6389
        \<and> \<not> 7800 \<le> Dist_mean (deref h a)
    | _ \<Rightarrow> False)"
  by (simp add: call_eval geom_eval Dist_add_def Dist_mean_def)

text \<open>
  C7, amended: the mean of \<open>ADD(CONST(1500), GEOM_SUM(CONST(1500), 0.81))\<close>, the formula
  of the repository's test, lies in \<open>[7800, 8000]\<close> (between 7887 and 7888).
\<close>

theorem geom_sum_pachinko_mean:
  "(case evaluate 30 ''ADD(CONST(1500), GEOM_SUM(CONST(1500), 0.81))'' mockCtx ([], ()) of
      (Return a, h, w) \<Rightarrow>
        length (deref h a) = 44
        \<and> 7800 \<le> Dist_mean (deref h a) \<and> Dist_mean (deref h a) \<le> 8000
        \<and> 7887 < Dist_mean (deref h a) \<and> Dist_mean (deref h a) < 7888
    | _ \<Rightarrow> False)"
  by (simp add: call_eval geom_eval Dist_add_def Dist_mean_def)

subsection \<open>C9: the value of a circular cell\<close>

text \<open>
  C9 (once a cell is circular, no later \<open>setCellInput\<close> changes its status or its
  value), on a new graph, at the three calls \<open>setCellInput("A1", "=BIN(0, 1, 0.5)")\<close>,
  \<open>setCellInput("A1", "=A1")\<close>, \<open>setCellInput("B1", "=REDUCE(A1, 5)")\<close>. After the
  second call \<open>A1\<close> is circular and its value is the bin \<open>[0, 1]\<close> of mass 1/2. The
  third call leaves \<open>A1\<close> circular and referring to the same object, but \<open>reduce\<close>
  has normalized that object in place: the value of \<open>A1\<close> is now the bin \<open>[0, 1]\<close> of
  mass 1.
\<close>

theorem circular_cell_value_changes:
  "\<exists>g1 g2 g3. setCellInput newGraph ''A1'' ''=BIN(0, 1, 0.5)'' = Some g1
     \<and> setCellInput g1 ''A1'' ''=A1'' = Some g2
     \<and> setCellInput g2 ''B1'' ''=REDUCE(A1, 5)'' = Some g3
     \<and> status (theCell g2 ''A1'') = Circular
     \<and> deref (objects g2) (cellValue (theCell g2 ''A1'')) = [Bin 0 1 (1 / 2) (1 / 2) Uniform]
     \<and> status (theCell g3 ''A1'') = Circular
     \<and> cellValue (theCell g3 ''A1'') = cellValue (theCell g2 ''A1'')
     \<and> deref (objects g3) (cellValue (theCell g3 ''A1'')) = [Bin 0 1 1 (1 / 2) Uniform]"
  by (simp add: sheet_eval)

end
